theory Spec2Isabelle
  imports Complex_Main
begin

section \<open>Values shared by both pipelines\<close>

text \<open>
  The exceptions the modelled code can raise. Every function that can raise returns
  \<open>error + 'a\<close>, with \<open>Inl\<close> for the exception.
\<close>

datatype error = IndexError | RuntimeError | ValueError | ZeroDivisionError | FileNotFoundError

definition bind_err :: "error + 'a \<Rightarrow> ('a \<Rightarrow> error + 'b) \<Rightarrow> error + 'b" where
  "bind_err r f = (case r of Inl e \<Rightarrow> Inl e | Inr v \<Rightarrow> f v)"

text \<open>
  A tensor is a scalar or a sequence of tensors; scalars are real numbers (the rounding of
  32-bit floats is not modelled). A sample of the dataset is an image tensor of shape
  \<open>[1, 28, 28]\<close> (what \<open>ToTensor()\<close> yields) with its integer label. The output of
  the network is a two-dimensional tensor, kept as a list of rows.
\<close>

datatype tensor = Scalar real | Tensor "tensor list"

type_synonym sample = "tensor \<times> int"

fun flat :: "tensor \<Rightarrow> real list" where
  "flat (Scalar a) = [a]"
| "flat (Tensor ts) = concat (map flat ts)"

fun is_Scalar :: "tensor \<Rightarrow> bool" where
  "is_Scalar (Scalar a) = True"
| "is_Scalar (Tensor ts) = False"

fun has_shape :: "nat list \<Rightarrow> tensor \<Rightarrow> bool" where
  "has_shape [] t = is_Scalar t"
| "has_shape (n # ns) t =
     (case t of Scalar a \<Rightarrow> False
      | Tensor ts \<Rightarrow> length ts = n \<and> list_all (has_shape ns) ts)"

text \<open>Python's \<open>xs[i]\<close> for a non-negative index.\<close>

definition getitem :: "'a list \<Rightarrow> nat \<Rightarrow> error + 'a" where
  "getitem xs i = (if i < length xs then Inr (xs ! i) else Inl IndexError)"

section \<open>The network: class NeuralNetwork\<close>

text \<open>
  \<open>nn.Flatten()\<close> keeps the first axis and flattens the others; an input with fewer than
  two axes is rejected.
\<close>

definition Flatten :: "tensor \<Rightarrow> error + real list list" where
  "Flatten x =
     (case x of Scalar a \<Rightarrow> Inl IndexError
      | Tensor ts \<Rightarrow> if list_ex is_Scalar ts then Inl IndexError else Inr (map flat ts))"

text \<open>
  \<open>nn.Linear(in_features, out_features)\<close>: a weight of shape
  \<open>[out_features, in_features]\<close> and a bias of shape \<open>[out_features]\<close>. The initial
  values are drawn at random by the framework; the constructor takes them as arguments.
\<close>

record Linear =
  in_features :: nat
  out_features :: nat
  weight :: "real list list"
  bias :: "real list"

definition nn_Linear :: "(nat \<Rightarrow> nat \<Rightarrow> real) \<Rightarrow> (nat \<Rightarrow> real) \<Rightarrow> nat \<Rightarrow> nat \<Rightarrow> Linear" where
  "nn_Linear w0 b0 n_in n_out =
     \<lparr>in_features = n_in, out_features = n_out,
      weight = map (\<lambda>i. map (w0 i) [0..<n_in]) [0..<n_out],
      bias = map b0 [0..<n_out]\<rparr>"

definition dot :: "real list \<Rightarrow> real list \<Rightarrow> real" where
  "dot w x = sum_list (map2 (*) w x)"

text \<open>One sample through a linear layer: \<open>W x + b\<close>.\<close>

definition affine :: "Linear \<Rightarrow> real list \<Rightarrow> real list" where
  "affine l x = map2 (\<lambda>w b. dot w x + b) (weight l) (bias l)"

text \<open>A batch through a linear layer; a row whose width is not \<open>in_features\<close> is rejected.\<close>

definition Linear_forward :: "Linear \<Rightarrow> real list list \<Rightarrow> error + real list list" where
  "Linear_forward l X =
     (if list_all (\<lambda>x. length x = in_features l) X then Inr (map (affine l) X)
      else Inl RuntimeError)"

definition relu :: "real list \<Rightarrow> real list" where
  "relu x = map (max 0) x"

definition ReLU :: "real list list \<Rightarrow> real list list" where
  "ReLU X = map relu X"

text \<open>
  The fields \<open>stack_0\<close>, \<open>stack_2\<close> and \<open>stack_4\<close> are the entries 0, 2 and 4 of
  \<open>linear_relu_stack\<close>; the entries 1 and 3 are the two \<open>nn.ReLU()\<close>, which hold no
  state. \<open>training\<close> is the mode flag of \<open>nn.Module\<close>, set by \<open>train()\<close> and
  cleared by \<open>eval()\<close>.
\<close>

record NeuralNetwork =
  stack_0 :: Linear
  stack_2 :: Linear
  stack_4 :: Linear
  training :: bool

definition NeuralNetwork_init ::
    "(nat \<Rightarrow> nat \<Rightarrow> nat \<Rightarrow> real) \<Rightarrow> (nat \<Rightarrow> nat \<Rightarrow> real) \<Rightarrow> NeuralNetwork" where
  "NeuralNetwork_init w0 b0 =
     \<lparr>stack_0 = nn_Linear (w0 0) (b0 0) (28 * 28) 512,
      stack_2 = nn_Linear (w0 2) (b0 2) 512 512,
      stack_4 = nn_Linear (w0 4) (b0 4) 512 10,
      training = True\<rparr>"

definition forward :: "NeuralNetwork \<Rightarrow> tensor \<Rightarrow> error + real list list" where
  "forward self x =
     bind_err (Flatten x) (\<lambda>x.
     bind_err (Linear_forward (stack_0 self) x) (\<lambda>h.
     bind_err (Linear_forward (stack_2 self) (ReLU h)) (\<lambda>h.
     Linear_forward (stack_4 self) (ReLU h))))"

text \<open>The shapes \<open>__init__\<close> gives the parameters of a layer and of the network.\<close>

definition Linear_ok :: "nat \<Rightarrow> nat \<Rightarrow> Linear \<Rightarrow> bool" where
  "Linear_ok n_in n_out l \<longleftrightarrow>
     in_features l = n_in \<and> out_features l = n_out \<and> length (weight l) = n_out \<and>
     list_all (\<lambda>row. length row = n_in) (weight l) \<and> length (bias l) = n_out"

definition NeuralNetwork_ok :: "NeuralNetwork \<Rightarrow> bool" where
  "NeuralNetwork_ok self \<longleftrightarrow>
     Linear_ok (28 * 28) 512 (stack_0 self) \<and> Linear_ok 512 512 (stack_2 self) \<and>
     Linear_ok 512 10 (stack_4 self)"

text \<open>A 28 x 28 image, with or without the channel axis that \<open>ToTensor()\<close> adds.\<close>

definition image28 :: "tensor \<Rightarrow> bool" where
  "image28 img \<longleftrightarrow> has_shape [28, 28] img \<or> has_shape [1, 28, 28] img"

section \<open>Loss and arg-max\<close>

text \<open>
  \<open>nn.CrossEntropyLoss()\<close> with its defaults (mean reduction, \<open>ignore_index = -100\<close>):
  the mean over the samples of the batch of \<open>- log_softmax(scores)[label]\<close>. The batch
  sizes of scores and labels must agree and a label must be a class index. A label equal to
  \<open>ignore_index\<close> is left out of the mean. Where nothing is left to average the framework
  returns \<open>nan\<close>, which the reals do not have: the model rejects that input (a loader
  never yields an empty batch).
\<close>

definition log_softmax_at :: "real list \<Rightarrow> nat \<Rightarrow> real" where
  "log_softmax_at v c = v ! c - ln (sum_list (map exp v))"

definition CrossEntropyLoss :: "real list list \<Rightarrow> int list \<Rightarrow> error + real" where
  "CrossEntropyLoss pred y =
     (if length pred \<noteq> length y then Inl ValueError
      else let kept = filter (\<lambda>vc. snd vc \<noteq> - 100) (zip pred y) in
        if list_ex (\<lambda>vc. snd vc < 0 \<or> int (length (fst vc)) \<le> snd vc) kept then Inl IndexError
        else if kept = [] then Inl ValueError
        else Inr (sum_list (map (\<lambda>vc. - log_softmax_at (fst vc) (nat (snd vc))) kept)
                  / real (length kept)))"

text \<open>\<open>argmax\<close> over a one-dimensional tensor: the first index that holds the maximum.\<close>

fun argmax_list :: "real list \<Rightarrow> nat" where
  "argmax_list [] = 0"
| "argmax_list [x] = 0"
| "argmax_list (x # y # ys) =
     (let j = argmax_list (y # ys) in if x < (y # ys) ! j then Suc j else 0)"

definition argmax :: "real list \<Rightarrow> error + nat" where
  "argmax v = (if v = [] then Inl IndexError else Inr (argmax_list v))"

text \<open>\<open>pred.argmax(1)\<close>: the arg-max of every row.\<close>

definition argmax_rows :: "real list list \<Rightarrow> error + nat list" where
  "argmax_rows pred =
     (if list_ex (\<lambda>v. v = []) pred then Inl IndexError else Inr (map argmax_list pred))"

text \<open>
  \<open>a == b\<close> on one-dimensional tensors, with the framework's broadcasting of a tensor of
  one element.
\<close>

definition eq_broadcast :: "int list \<Rightarrow> int list \<Rightarrow> error + bool list" where
  "eq_broadcast a b =
     (if length a = length b then Inr (map2 (=) a b)
      else if length a = 1 then Inr (map (\<lambda>v. a ! 0 = v) b)
      else if length b = 1 then Inr (map (\<lambda>v. v = b ! 0) a)
      else Inl RuntimeError)"

text \<open>\<open>(pred.argmax(1) == y).type(torch.float).sum().item()\<close>\<close>

definition count_correct :: "real list list \<Rightarrow> int list \<Rightarrow> error + real" where
  "count_correct pred y =
     bind_err (argmax_rows pred) (\<lambda>top.
     bind_err (eq_broadcast (map int top) y) (\<lambda>hits.
     Inr (real (length (filter id hits)))))"

section \<open>Data loaders\<close>

text \<open>
  \<open>DataLoader(dataset, batch_size, shuffle, num_workers)\<close>. The framework's default for
  \<open>shuffle\<close> is \<open>False\<close>, and it refuses a batch size that is not positive. Without
  shuffling the sampler yields the indices \<open>0, 1, ...\<close> in order; with shuffling it
  yields a permutation drawn anew for every pass, which the model takes as the argument
  \<open>perm\<close>. The batch sampler cuts the indices into runs of \<open>batch_size\<close>, the last
  one possibly shorter.
\<close>

record 'a DataLoader =
  dataset :: "'a list"
  batch_size_of :: nat
  shuffle :: bool
  num_workers :: nat

definition shuffle_default :: bool where
  "shuffle_default = False"

definition torch_DataLoader :: "'a list \<Rightarrow> int \<Rightarrow> bool \<Rightarrow> nat \<Rightarrow> error + 'a DataLoader" where
  "torch_DataLoader ds bs sh nw =
     (if bs \<le> 0 then Inl ValueError
      else Inr \<lparr>dataset = ds, batch_size_of = nat bs, shuffle = sh, num_workers = nw\<rparr>)"

function chunks :: "nat \<Rightarrow> 'a list \<Rightarrow> 'a list list" where
  "chunks n xs = (if n = 0 \<or> xs = [] then [] else take n xs # chunks n (drop n xs))"
  by pat_completeness auto
termination
  by (relation "measure (\<lambda>(n, xs). length xs)") auto

definition sampler :: "'a DataLoader \<Rightarrow> nat list \<Rightarrow> nat list" where
  "sampler dl perm = (if shuffle dl then perm else [0..<length (dataset dl)])"

definition batches :: "'a DataLoader \<Rightarrow> nat list \<Rightarrow> 'a list list" where
  "batches dl perm = chunks (batch_size_of dl) (map (\<lambda>i. dataset dl ! i) (sampler dl perm))"

text \<open>\<open>len(dataloader)\<close>: the number of batches.\<close>

definition len_DataLoader :: "'a DataLoader \<Rightarrow> nat" where
  "len_DataLoader dl = (length (dataset dl) + batch_size_of dl - 1) div batch_size_of dl"

text \<open>The default collation: the images stacked along a new first axis, the labels in a vector.\<close>

definition collate :: "sample list \<Rightarrow> tensor \<times> int list" where
  "collate b = (Tensor (map fst b), map snd b)"

section \<open>The manual pipeline: train, test, predict\<close>

text \<open>
  What the functions print, with the values the format strings are given, and the calls
  they make on the framework, in the order they make them.
\<close>

datatype printed =
    Progress real nat nat
  | Test_error real real
  | Predicted nat int
  | Epoch nat
  | Done
  | Saved_model

datatype call =
    Module_train
  | Module_eval
  | To_device string
  | Module_call
  | Loss_call
  | Zero_grad
  | Backward
  | Optimizer_step
  | No_grad
  | Print printed
  | Save string
  | Load string
  | Log string real
  | Metric_update
  | Metric_compute
  | Metric_reset

text \<open>
  \<open>train\<close>, \<open>test\<close> and \<open>predict\<close> take any \<open>nn.Module\<close>: the three
  methods they use are passed as a record. \<open>train\<close> takes any optimizer;
  differentiation and the optimizer's update are the framework's, and are passed as a
  record too: \<open>zero_grad\<close> clears the accumulated gradients, \<open>backward\<close> adds to
  them the gradient, at the model's parameters, of the loss that the loss function gives
  on the batch, and \<open>step\<close> updates the optimizer's state and the model's parameters
  from them. A session holds what \<open>train\<close> and \<open>test\<close> change: the model, the
  gradients, the optimizer and the calls made so far. Moving a tensor to a device does
  not change its values, and is recorded as a call only.
\<close>

record 'm Module =
  train_method :: "'m \<Rightarrow> 'm"
  eval_method :: "'m \<Rightarrow> 'm"
  call_method :: "'m \<Rightarrow> tensor \<Rightarrow> error + real list list"

record ('m, 'g, 'o) torch =
  zero_grad :: "'g \<Rightarrow> 'g"
  backward ::
    "(real list list \<Rightarrow> int list \<Rightarrow> error + real) \<Rightarrow> 'm \<Rightarrow> tensor \<Rightarrow> int list \<Rightarrow> 'g \<Rightarrow> 'g"
  step :: "'o \<Rightarrow> 'g \<Rightarrow> 'm \<Rightarrow> 'o \<times> 'm"

record ('m, 'g, 'o) session =
  s_model :: 'm
  s_grads :: 'g
  s_optimizer :: 'o
  s_calls :: "call list"

definition called :: "call \<Rightarrow> ('m, 'g, 'o) session \<Rightarrow> ('m, 'g, 'o) session" where
  "called c s = s\<lparr>s_calls := s_calls s @ [c]\<rparr>"

text \<open>
  The body of the loop of \<open>train\<close>, for the batch \<open>b\<close> with index \<open>batch\<close>;
  \<open>dataset_size\<close> is the variable \<open>size\<close> of the source.
\<close>

definition train_batch ::
    "('m, 'g, 'o) torch \<Rightarrow> 'm Module \<Rightarrow> string \<Rightarrow> (real list list \<Rightarrow> int list \<Rightarrow> error + real) \<Rightarrow>
     nat \<Rightarrow> nat \<Rightarrow> sample list \<Rightarrow> ('m, 'g, 'o) session \<Rightarrow> error + ('m, 'g, 'o) session" where
  "train_batch T M device loss_fn dataset_size batch b s =
     (let X = fst (collate b); y = snd (collate b);
          s = called (To_device device) s;
          s = called (To_device device) s
      in
        bind_err (call_method M (s_model s) X) (\<lambda>pred.
        let s = called Module_call s in
        bind_err (loss_fn pred y) (\<lambda>loss.
        let s = called Loss_call s;
            s = called Zero_grad (s\<lparr>s_grads := zero_grad T (s_grads s)\<rparr>);
            s = called Backward (s\<lparr>s_grads := backward T loss_fn (s_model s) X y (s_grads s)\<rparr>);
            s = called Optimizer_step
                  (s\<lparr>s_optimizer := fst (step T (s_optimizer s) (s_grads s) (s_model s)),
                     s_model := snd (step T (s_optimizer s) (s_grads s) (s_model s))\<rparr>)
        in
          Inr (if batch mod 100 = 0
               then called (Print (Progress loss (batch * length b) dataset_size)) s
               else s))))"

fun train_loop ::
    "('m, 'g, 'o) torch \<Rightarrow> 'm Module \<Rightarrow> string \<Rightarrow> (real list list \<Rightarrow> int list \<Rightarrow> error + real) \<Rightarrow>
     nat \<Rightarrow> nat \<Rightarrow> sample list list \<Rightarrow> ('m, 'g, 'o) session \<Rightarrow> error + ('m, 'g, 'o) session" where
  "train_loop T M device loss_fn dataset_size batch [] s = Inr s"
| "train_loop T M device loss_fn dataset_size batch (b # bs) s =
     bind_err (train_batch T M device loss_fn dataset_size batch b s)
       (train_loop T M device loss_fn dataset_size (Suc batch) bs)"

definition train ::
    "('m, 'g, 'o) torch \<Rightarrow> 'm Module \<Rightarrow> sample DataLoader \<Rightarrow> nat list \<Rightarrow> string \<Rightarrow>
     (real list list \<Rightarrow> int list \<Rightarrow> error + real) \<Rightarrow> ('m, 'g, 'o) session \<Rightarrow>
     error + ('m, 'g, 'o) session" where
  "train T M dataloader perm device loss_fn s =
     (let dataset_size = length (dataset dataloader);
          s = called Module_train (s\<lparr>s_model := train_method M (s_model s)\<rparr>)
      in train_loop T M device loss_fn dataset_size 0 (batches dataloader perm) s)"

text \<open>The loop of \<open>test\<close>, with the accumulators \<open>test_loss\<close> and \<open>correct\<close>.\<close>

fun test_loop ::
    "'m Module \<Rightarrow> string \<Rightarrow> (real list list \<Rightarrow> int list \<Rightarrow> error + real) \<Rightarrow> sample list list \<Rightarrow>
     ('m, 'g, 'o) session \<Rightarrow> real \<Rightarrow> real \<Rightarrow> error + (('m, 'g, 'o) session \<times> real \<times> real)" where
  "test_loop M device loss_fn [] s test_loss correct = Inr (s, test_loss, correct)"
| "test_loop M device loss_fn (b # bs) s test_loss correct =
     (let X = fst (collate b); y = snd (collate b);
          s = called (To_device device) s;
          s = called (To_device device) s
      in
        bind_err (call_method M (s_model s) X) (\<lambda>pred.
        let s = called Module_call s in
        bind_err (loss_fn pred y) (\<lambda>l.
        let s = called Loss_call s in
        bind_err (count_correct pred y) (\<lambda>c.
        test_loop M device loss_fn bs s (test_loss + l) (correct + c)))))"

definition test ::
    "'m Module \<Rightarrow> sample DataLoader \<Rightarrow> nat list \<Rightarrow> string \<Rightarrow>
     (real list list \<Rightarrow> int list \<Rightarrow> error + real) \<Rightarrow> ('m, 'g, 'o) session \<Rightarrow>
     error + ('m, 'g, 'o) session" where
  "test M dataloader perm device loss_fn s =
     (let dataset_size = length (dataset dataloader);
          num_batches = len_DataLoader dataloader;
          s = called Module_eval (s\<lparr>s_model := eval_method M (s_model s)\<rparr>);
          s = called No_grad s
      in
        bind_err (test_loop M device loss_fn (batches dataloader perm) s 0 0) (\<lambda>r.
        let s = fst r; test_loss = fst (snd r); correct = snd (snd r) in
        if num_batches = 0 then Inl ZeroDivisionError
        else let test_loss = test_loss / real num_batches in
        if dataset_size = 0 then Inl ZeroDivisionError
        else let correct = correct / real dataset_size in
        Inr (called (Print (Test_error (100 * correct) test_loss)) s)))"

text \<open>
  \<open>predict\<close> returns the model as it leaves it and the line it prints:
  \<open>Predicted predicted actual\<close>.
\<close>

definition predict :: "'m Module \<Rightarrow> sample list \<Rightarrow> 'm \<Rightarrow> error + ('m \<times> printed)" where
  "predict M test_data model =
     (let model = eval_method M model in
      bind_err (getitem test_data 0) (\<lambda>s0.
      let x = fst s0 in
      bind_err (getitem test_data 0) (\<lambda>s0.
      let y = snd s0 in
      bind_err (call_method M model x) (\<lambda>pred.
      bind_err (getitem pred 0) (\<lambda>pred0.
      bind_err (argmax pred0) (\<lambda>predicted.
      let actual = y in
      Inr (model, Predicted predicted actual)))))))"

text \<open>What \<open>predict\<close> reports, without the model.\<close>

definition reported :: "error + ('m \<times> printed) \<Rightarrow> error + printed" where
  "reported r = (case r of Inl e \<Rightarrow> Inl e | Inr mp \<Rightarrow> Inr (snd mp))"

text \<open>\<open>NeuralNetwork\<close> as an \<open>nn.Module\<close>.\<close>

definition NeuralNetwork_train :: "NeuralNetwork \<Rightarrow> NeuralNetwork" where
  "NeuralNetwork_train self = self\<lparr>training := True\<rparr>"

definition NeuralNetwork_eval :: "NeuralNetwork \<Rightarrow> NeuralNetwork" where
  "NeuralNetwork_eval self = self\<lparr>training := False\<rparr>"

definition NeuralNetwork_cls :: "NeuralNetwork Module" where
  "NeuralNetwork_cls =
     \<lparr>train_method = NeuralNetwork_train, eval_method = NeuralNetwork_eval,
      call_method = forward\<rparr>"

section \<open>Persistence\<close>

text \<open>
  A state dict lists the parameter tensors under their names, in order. \<open>torch.save\<close>
  writes an object to a path and \<open>torch.load\<close> reads it back: the files are a map from
  paths to the objects written. \<open>load_state_dict\<close> is strict: it refuses a state dict
  with a missing or an unexpected name, or with a tensor whose shape is not the shape of
  the parameter it is loaded into.
\<close>

datatype param = Tensor2 "real list list" | Tensor1 "real list"

type_synonym state_dict = "(string \<times> param) list"

datatype pickled = Pickled_state_dict state_dict | Pickled_checkpoint state_dict

type_synonym files = "string \<Rightarrow> pickled option"

definition torch_save :: "pickled \<Rightarrow> string \<Rightarrow> files \<Rightarrow> files" where
  "torch_save obj path fs = fs(path \<mapsto> obj)"

definition torch_load :: "string \<Rightarrow> files \<Rightarrow> error + pickled" where
  "torch_load path fs = (case fs path of None \<Rightarrow> Inl FileNotFoundError | Some obj \<Rightarrow> Inr obj)"

definition parameters :: "string list" where
  "parameters =
     [''linear_relu_stack.0.weight'', ''linear_relu_stack.0.bias'',
      ''linear_relu_stack.2.weight'', ''linear_relu_stack.2.bias'',
      ''linear_relu_stack.4.weight'', ''linear_relu_stack.4.bias'']"

definition state_dict :: "NeuralNetwork \<Rightarrow> state_dict" where
  "state_dict self =
     [(''linear_relu_stack.0.weight'', Tensor2 (weight (stack_0 self))),
      (''linear_relu_stack.0.bias'', Tensor1 (bias (stack_0 self))),
      (''linear_relu_stack.2.weight'', Tensor2 (weight (stack_2 self))),
      (''linear_relu_stack.2.bias'', Tensor1 (bias (stack_2 self))),
      (''linear_relu_stack.4.weight'', Tensor2 (weight (stack_4 self))),
      (''linear_relu_stack.4.bias'', Tensor1 (bias (stack_4 self)))]"

definition load_Linear :: "Linear \<Rightarrow> param option \<Rightarrow> param option \<Rightarrow> error + Linear" where
  "load_Linear l w b =
     (case w of
        Some (Tensor2 w') \<Rightarrow>
          (case b of
             Some (Tensor1 b') \<Rightarrow>
               if map length w' = map length (weight l) \<and> length b' = length (bias l)
               then Inr (l\<lparr>weight := w', bias := b'\<rparr>)
               else Inl RuntimeError
           | _ \<Rightarrow> Inl RuntimeError)
      | _ \<Rightarrow> Inl RuntimeError)"

definition load_state_dict :: "NeuralNetwork \<Rightarrow> state_dict \<Rightarrow> error + NeuralNetwork" where
  "load_state_dict self sd =
     (if set (map fst sd) \<noteq> set parameters then Inl RuntimeError
      else
        bind_err (load_Linear (stack_0 self) (map_of sd ''linear_relu_stack.0.weight'')
                    (map_of sd ''linear_relu_stack.0.bias'')) (\<lambda>l0.
        bind_err (load_Linear (stack_2 self) (map_of sd ''linear_relu_stack.2.weight'')
                    (map_of sd ''linear_relu_stack.2.bias'')) (\<lambda>l2.
        bind_err (load_Linear (stack_4 self) (map_of sd ''linear_relu_stack.4.weight'')
                    (map_of sd ''linear_relu_stack.4.bias'')) (\<lambda>l4.
        Inr (self\<lparr>stack_0 := l0, stack_2 := l2, stack_4 := l4\<rparr>)))))"

section \<open>The manual pipeline: run_pytorch\<close>

text \<open>
  \<open>optim.SGD(params, lr, momentum)\<close>: the optimizer holds references to the parameters it
  updates (here their names), its hyper-parameters and its momentum buffers, of which a
  new optimizer has none.
\<close>

record 'b SGD =
  param_refs :: "string list"
  lr :: real
  momentum :: real
  momentum_buffers :: "'b option"

definition optim_SGD :: "string list \<Rightarrow> real \<Rightarrow> real \<Rightarrow> 'b SGD" where
  "optim_SGD ps l m = \<lparr>param_refs = ps, lr = l, momentum = m, momentum_buffers = None\<rparr>"

text \<open>
  What the pipeline takes from outside: the two MNIST datasets, whether CUDA is available,
  the random initial values of the networks it constructs (the first one trained, the
  second one loaded into), the permutations a shuffling sampler would draw, pass by pass,
  and the files.
\<close>

record environment =
  mnist_train :: "sample list"
  mnist_test :: "sample list"
  cuda_is_available :: bool
  initial_weight :: "nat \<Rightarrow> nat \<Rightarrow> nat \<Rightarrow> nat \<Rightarrow> real"
  initial_bias :: "nat \<Rightarrow> nat \<Rightarrow> nat \<Rightarrow> real"
  permutation :: "nat \<Rightarrow> nat list"
  files_of :: files

text \<open>The two loaders, as both pipelines construct them (no \<open>shuffle\<close> argument is given).\<close>

definition train_dataloader_of :: "sample list \<Rightarrow> int \<Rightarrow> error + sample DataLoader" where
  "train_dataloader_of training_data batch_size =
     torch_DataLoader training_data batch_size shuffle_default 16"

definition test_dataloader_of :: "sample list \<Rightarrow> int \<Rightarrow> error + sample DataLoader" where
  "test_dataloader_of test_data batch_size =
     torch_DataLoader test_data batch_size shuffle_default 8"



text \<open>
  Lines 158 to 163: the parameters are saved, a new network is constructed and loaded from
  the file, and \<open>predict\<close> is run on it. The result is the files, the network loaded and
  the line \<open>predict\<close> prints.
\<close>

definition run_pytorch_reload ::
    "environment \<Rightarrow> NeuralNetwork \<Rightarrow> error + (files \<times> NeuralNetwork \<times> printed)" where
  "run_pytorch_reload env model =
     (let test_data = mnist_test env;
          fs = torch_save (Pickled_state_dict (state_dict model)) ''model.pth'' (files_of env);
          model = NeuralNetwork_init (initial_weight env 1) (initial_bias env 1)
      in
        bind_err (torch_load ''model.pth'' fs) (\<lambda>obj.
        bind_err (case obj of Pickled_state_dict sd \<Rightarrow> load_state_dict model sd
                  | Pickled_checkpoint c \<Rightarrow> Inl RuntimeError) (\<lambda>model.
        bind_err (predict NeuralNetwork_cls test_data model) (\<lambda>r.
        Inr (fs, fst r, snd r)))))"


section \<open>The Lightning pipeline: class NeuralNetworkModule\<close>

text \<open>
  \<open>torchmetrics.Accuracy\<close> is an accumulator: \<open>update\<close> adds the number of samples of
  the batch whose top-scoring class is their label and the number of samples, and
  \<open>reset\<close> puts these two accumulated states back to what the constructor gave them.
  The metric also holds the kind of input it has seen (\<open>self.mode\<close>): the constructor
  leaves it undetermined, \<open>update\<close> determines it, and \<open>reset\<close> leaves it as it is.
  \<open>compute\<close> raises \<open>RuntimeError\<close> while the kind of input is undetermined;
  otherwise it divides the one accumulated state by the other, and gives zero where
  nothing is accumulated.
\<close>

record Accuracy =
  num_classes :: nat
  mode_determined :: bool
  acc_correct :: real
  acc_total :: nat

definition Accuracy_init :: "nat \<Rightarrow> Accuracy" where
  "Accuracy_init n =
     \<lparr>num_classes = n, mode_determined = False, acc_correct = 0, acc_total = 0\<rparr>"

definition Accuracy_update :: "Accuracy \<Rightarrow> real list list \<Rightarrow> int list \<Rightarrow> error + Accuracy" where
  "Accuracy_update m pred y =
     (if length pred \<noteq> length y then Inl ValueError
      else bind_err (count_correct pred y) (\<lambda>c.
           Inr (m\<lparr>mode_determined := True, acc_correct := acc_correct m + c,
                  acc_total := acc_total m + length y\<rparr>)))"

definition Accuracy_compute :: "Accuracy \<Rightarrow> error + real" where
  "Accuracy_compute m =
     (if \<not> mode_determined m then Inl RuntimeError
      else Inr (if acc_total m = 0 then 0 else acc_correct m / real (acc_total m)))"

definition Accuracy_reset :: "Accuracy \<Rightarrow> Accuracy" where
  "Accuracy_reset m = m\<lparr>acc_correct := 0, acc_total := 0\<rparr>"

text \<open>
  The module holds the network (\<open>self.model\<close>), the metric and its own mode flag; the
  loss function holds no state. \<open>logged\<close> is what \<open>self.log\<close> has been given, and
  \<open>made\<close> the calls the callbacks have made, in order.
\<close>

record NeuralNetworkModule =
  net :: NeuralNetwork
  metric :: Accuracy
  module_training :: bool
  logged :: "(string \<times> real) list"
  made :: "call list"

definition NeuralNetworkModule_init ::
    "(nat \<Rightarrow> nat \<Rightarrow> nat \<Rightarrow> real) \<Rightarrow> (nat \<Rightarrow> nat \<Rightarrow> real) \<Rightarrow> NeuralNetworkModule" where
  "NeuralNetworkModule_init w0 b0 =
     \<lparr>net = NeuralNetwork_init w0 b0, metric = Accuracy_init 10, module_training = True,
      logged = [], made = []\<rparr>"

definition module_parameters :: "NeuralNetworkModule \<Rightarrow> string list" where
  "module_parameters self = map (\<lambda>k. ''model.'' @ k) parameters"

definition configure_optimizers :: "NeuralNetworkModule \<Rightarrow> 'b SGD" where
  "configure_optimizers self = optim_SGD (module_parameters self) (1 / 100) (9 / 10)"

definition module_forward :: "NeuralNetworkModule \<Rightarrow> tensor \<Rightarrow> error + real list list" where
  "module_forward self x = forward (net self) x"

definition did :: "call \<Rightarrow> NeuralNetworkModule \<Rightarrow> NeuralNetworkModule" where
  "did c self = self\<lparr>made := made self @ [c]\<rparr>"

text \<open>\<open>self.log(name, v, prog_bar=True)\<close>\<close>

definition self_log :: "string \<Rightarrow> real \<Rightarrow> NeuralNetworkModule \<Rightarrow> NeuralNetworkModule" where
  "self_log name v self = did (Log name v) (self\<lparr>logged := logged self @ [(name, v)]\<rparr>)"

definition training_step ::
    "NeuralNetworkModule \<Rightarrow> tensor \<times> int list \<Rightarrow> nat \<Rightarrow>
     error + (NeuralNetworkModule \<times> (string \<times> real) list)" where
  "training_step self batch batch_idx =
     (let X = fst batch; y = snd batch in
      bind_err (module_forward self X) (\<lambda>pred.
      let self = did Module_call self in
      bind_err (CrossEntropyLoss pred y) (\<lambda>loss.
      let self = did Loss_call self;
          self = self_log ''train_loss'' loss self
      in Inr (self, [(''loss'', loss)]))))"

definition validation_step ::
    "NeuralNetworkModule \<Rightarrow> tensor \<times> int list \<Rightarrow> nat \<Rightarrow>
     error + (NeuralNetworkModule \<times> (string \<times> real) list)" where
  "validation_step self batch batch_idx =
     (let X = fst batch; y = snd batch in
      bind_err (module_forward self X) (\<lambda>pred.
      let self = did Module_call self in
      bind_err (CrossEntropyLoss pred y) (\<lambda>loss.
      let self = did Loss_call self in
      bind_err (Accuracy_update (metric self) pred y) (\<lambda>m.
      let self = did Metric_update (self\<lparr>metric := m\<rparr>);
          self = self_log ''val_loss'' loss self
      in Inr (self, [(''val_loss'', loss)])))))"

definition validation_epoch_end ::
    "NeuralNetworkModule \<Rightarrow> (string \<times> real) list list \<Rightarrow> error + NeuralNetworkModule" where
  "validation_epoch_end self outputs =
     bind_err (Accuracy_compute (metric self)) (\<lambda>v.
     let self = did Metric_compute self;
         self = self_log ''val_acc'' v self;
         self = did Metric_reset (self\<lparr>metric := Accuracy_reset (metric self)\<rparr>)
     in Inr self)"

text \<open>\<open>NeuralNetworkModule\<close> as an \<open>nn.Module\<close>: the mode is set on the module and on its child.\<close>

definition NeuralNetworkModule_train :: "NeuralNetworkModule \<Rightarrow> NeuralNetworkModule" where
  "NeuralNetworkModule_train self =
     self\<lparr>module_training := True, net := NeuralNetwork_train (net self)\<rparr>"

definition NeuralNetworkModule_eval :: "NeuralNetworkModule \<Rightarrow> NeuralNetworkModule" where
  "NeuralNetworkModule_eval self =
     self\<lparr>module_training := False, net := NeuralNetwork_eval (net self)\<rparr>"

definition NeuralNetworkModule_cls :: "NeuralNetworkModule Module" where
  "NeuralNetworkModule_cls =
     \<lparr>train_method = NeuralNetworkModule_train, eval_method = NeuralNetworkModule_eval,
      call_method = module_forward\<rparr>"

text \<open>
  The state dict of the module names the network's parameters under \<open>model.\<close>; the metric
  and the loss function add nothing to it. \<open>trainer.save_checkpoint\<close> writes a checkpoint
  that holds the module's state dict, and \<open>load_from_checkpoint\<close> constructs a new module
  and loads that state dict into it, strictly.
\<close>

definition module_state_dict :: "NeuralNetworkModule \<Rightarrow> state_dict" where
  "module_state_dict self = map (\<lambda>kv. (''model.'' @ fst kv, snd kv)) (state_dict (net self))"

definition module_load_state_dict ::
    "NeuralNetworkModule \<Rightarrow> state_dict \<Rightarrow> error + NeuralNetworkModule" where
  "module_load_state_dict self sd =
     (if list_ex (\<lambda>kv. take 6 (fst kv) \<noteq> ''model.'') sd then Inl RuntimeError
      else bind_err (load_state_dict (net self) (map (\<lambda>kv. (drop 6 (fst kv), snd kv)) sd)) (\<lambda>n.
           Inr (self\<lparr>net := n\<rparr>)))"

definition save_checkpoint :: "NeuralNetworkModule \<Rightarrow> string \<Rightarrow> files \<Rightarrow> files" where
  "save_checkpoint self path fs = torch_save (Pickled_checkpoint (module_state_dict self)) path fs"

definition load_from_checkpoint ::
    "(nat \<Rightarrow> nat \<Rightarrow> nat \<Rightarrow> real) \<Rightarrow> (nat \<Rightarrow> nat \<Rightarrow> real) \<Rightarrow> string \<Rightarrow> files \<Rightarrow>
     error + NeuralNetworkModule" where
  "load_from_checkpoint w0 b0 checkpoint_path fs =
     bind_err (torch_load checkpoint_path fs) (\<lambda>obj.
     case obj of Pickled_checkpoint sd \<Rightarrow> module_load_state_dict (NeuralNetworkModule_init w0 b0) sd
     | Pickled_state_dict sd \<Rightarrow> Inl RuntimeError)"

text \<open>
  Lines 271 to 275 of \<open>run_pytorch_lightning\<close>, for the module as \<open>trainer.fit\<close> left
  it: the checkpoint is saved, a new module is loaded from it, and \<open>predict\<close> is run on
  it.
\<close>

definition run_pytorch_lightning_reload ::
    "environment \<Rightarrow> NeuralNetworkModule \<Rightarrow> error + (files \<times> NeuralNetworkModule \<times> printed)" where
  "run_pytorch_lightning_reload env model =
     (let test_data = mnist_test env;
          fs = save_checkpoint model ''model.ckpt'' (files_of env)
      in
        bind_err (load_from_checkpoint (initial_weight env 1) (initial_bias env 1)
                    ''model.ckpt'' fs) (\<lambda>model.
        bind_err (predict NeuralNetworkModule_cls test_data model) (\<lambda>r.
        Inr (fs, fst r, snd r))))"

text \<open>
  \<open>run_pytorch_lightning\<close>. The trainer is the framework's: \<open>fit\<close> stands for
  \<open>Trainer(max_epochs=epochs, gpus=1).fit\<close>, which returns the module as it leaves it.
\<close>

definition run_pytorch_lightning ::
    "(int \<Rightarrow> NeuralNetworkModule \<Rightarrow> sample DataLoader \<Rightarrow> sample DataLoader \<Rightarrow>
      error + NeuralNetworkModule) \<Rightarrow>
     environment \<Rightarrow> int \<Rightarrow> int \<Rightarrow> error + (files \<times> NeuralNetworkModule \<times> printed)" where
  "run_pytorch_lightning fit env batch_size epochs =
     (let training_data = mnist_train env; test_data = mnist_test env in
      bind_err (train_dataloader_of training_data batch_size) (\<lambda>train_dataloader.
      bind_err (test_dataloader_of test_data batch_size) (\<lambda>test_dataloader.
      let model = NeuralNetworkModule_init (initial_weight env 0) (initial_bias env 0) in
      bind_err (fit epochs model train_dataloader test_dataloader) (\<lambda>model.
      run_pytorch_lightning_reload env model))))"

section \<open>Specifications\<close>

text \<open>
  The network as the specification words it, for one image: the image is flattened, and
  three linear transformations are applied to it, with an activation between the first and
  the second and between the second and the third.
\<close>

definition three_linear_two_activations :: "NeuralNetwork \<Rightarrow> tensor \<Rightarrow> real list" where
  "three_linear_two_activations self img =
     affine (stack_4 self) (relu (affine (stack_2 self) (relu (affine (stack_0 self) (flat img)))))"

text \<open>
  A sample as the data model has it: an image of shape \<open>[1, 28, 28]\<close> with a label
  from 0 to 9. A batch of such samples, as a loader yields it: not empty.
\<close>

definition valid_sample :: "sample \<Rightarrow> bool" where
  "valid_sample d \<longleftrightarrow> has_shape [1, 28, 28] (fst d) \<and> 0 \<le> snd d \<and> snd d < 10"

definition valid_batch :: "sample list \<Rightarrow> bool" where
  "valid_batch b \<longleftrightarrow> b \<noteq> [] \<and> list_all valid_sample b"

text \<open>An optimizer changes the values of the parameters, never their shapes.\<close>

definition keeps_shapes :: "(NeuralNetwork, 'g, 'o) torch \<Rightarrow> bool" where
  "keeps_shapes T \<longleftrightarrow>
     (\<forall>opt g m. NeuralNetwork_ok m \<longrightarrow> NeuralNetwork_ok (snd (step T opt g m)))"

text \<open>
  One gradient step as the specification words it: the accumulated gradients are
  cleared, the loss of the batch is back-propagated, and one optimizer update is applied.
  The state is the model, the gradients and the optimizer.
\<close>

definition one_update ::
    "('m, 'g, 'o) torch \<Rightarrow> (real list list \<Rightarrow> int list \<Rightarrow> error + real) \<Rightarrow> sample list \<Rightarrow>
     'm \<times> 'g \<times> 'o \<Rightarrow> 'm \<times> 'g \<times> 'o" where
  "one_update T loss_fn b mgo =
     (let m = fst mgo; g = fst (snd mgo); opt = snd (snd mgo);
          g = zero_grad T g;
          g = backward T loss_fn m (Tensor (map fst b)) (map snd b) g
      in (snd (step T opt g m), g, fst (step T opt g m)))"

text \<open>The calls of one pass of the loop of \<open>train\<close>, the progress line apart.\<close>

definition batch_calls :: "string \<Rightarrow> call list" where
  "batch_calls device =
     [To_device device, To_device device, Module_call, Loss_call, Zero_grad, Backward,
      Optimizer_step]"

definition is_Print :: "call \<Rightarrow> bool" where
  "is_Print c = (case c of Print p \<Rightarrow> True | _ \<Rightarrow> False)"

text \<open>
  The two quantities \<open>test\<close> accumulates, as the specification words them: whether the
  top-scoring class of a sample is its label, and the cross-entropy loss of a batch.
\<close>

definition top1_correct :: "NeuralNetwork \<Rightarrow> sample \<Rightarrow> bool" where
  "top1_correct m d \<longleftrightarrow> int (argmax_list (three_linear_two_activations m (fst d))) = snd d"

definition batch_loss :: "NeuralNetwork \<Rightarrow> sample list \<Rightarrow> real" where
  "batch_loss m b =
     (case CrossEntropyLoss (map (three_linear_two_activations m) (map fst b)) (map snd b) of
        Inl e \<Rightarrow> 0 | Inr l \<Rightarrow> l)"

text \<open>
  The calls that mark the course of \<open>run_pytorch\<close>: the header of an epoch, the entry
  of \<open>train\<close> (which is where the model is put in training mode), the entry of \<open>test\<close>
  (where it is put in evaluation mode), and the saving and loading of the parameters.
\<close>

definition epoch_mark :: "call \<Rightarrow> bool" where
  "epoch_mark c =
     (case c of
        Module_train \<Rightarrow> True
      | Module_eval \<Rightarrow> True
      | Save path \<Rightarrow> True
      | Load path \<Rightarrow> True
      | Print p \<Rightarrow> (case p of Epoch t \<Rightarrow> True | _ \<Rightarrow> False)
      | _ \<Rightarrow> False)"

section \<open>Concrete inputs\<close>

text \<open>A black image of shape \<open>[1, 28, 28]\<close>, and the network whose parameters are all zero.\<close>

definition zeros_image :: tensor where
  "zeros_image = Tensor [Tensor (replicate 28 (Tensor (replicate 28 (Scalar 0))))]"

definition zeros_network :: NeuralNetwork where
  "zeros_network = NeuralNetwork_init (\<lambda>k i j. 0) (\<lambda>k i. 0)"

text \<open>Three samples, and the loader the pipelines construct over them with batches of two.\<close>

definition three_samples :: "sample list" where
  "three_samples = [(zeros_image, 0), (zeros_image, 1), (zeros_image, 2)]"

definition three_loader :: "sample DataLoader" where
  "three_loader = \<lparr>dataset = three_samples, batch_size_of = 2, shuffle = False, num_workers = 16\<rparr>"

text \<open>The Lightning module over the network whose parameters are all zero.\<close>

definition zeros_module :: NeuralNetworkModule where
  "zeros_module = NeuralNetworkModule_init (\<lambda>k i j. 0) (\<lambda>k i. 0)"

text \<open>
  An environment with three samples in each dataset, no CUDA, no file, and all initial
  values one.
\<close>

definition small_env :: environment where
  "small_env =
     \<lparr>mnist_train = three_samples, mnist_test = three_samples, cuda_is_available = False,
      initial_weight = (\<lambda>n k i j. 1), initial_bias = (\<lambda>n k i. 1),
      permutation = (\<lambda>n. []), files_of = (\<lambda>path. None)\<rparr>"

text \<open>A framework whose optimizer step does nothing, for concrete runs.\<close>

definition idle_torch :: "(NeuralNetwork, unit, unit SGD) torch" where
  "idle_torch = \<lparr>zero_grad = (\<lambda>g. g), backward = (\<lambda>loss_fn m X y g. g), step = (\<lambda>opt g m. (opt, m))\<rparr>"

text \<open>The session \<open>run_pytorch\<close> starts from, over the network whose parameters are all zero.\<close>

definition zeros_session :: "(NeuralNetwork, unit, unit SGD) session" where
  "zeros_session =
     \<lparr>s_model = zeros_network, s_grads = (), s_optimizer = optim_SGD parameters (1 / 100) (9 / 10),
      s_calls = []\<rparr>"

text \<open>The loader \<open>run_pytorch\<close> constructs over an empty test dataset, with batches of two.\<close>

definition empty_loader :: "sample DataLoader" where
  "empty_loader = \<lparr>dataset = [], batch_size_of = 2, shuffle = False, num_workers = 8\<rparr>"

text \<open>
  A white image of shape \<open>[1, 28, 28]\<close>, and a network whose second layer gives
  negative values on it: the weights are 1 in the first and the last layer and -1 in the
  second, the biases are 0 but in the last layer, where the bias of a class is its index.
\<close>

definition ones_image :: tensor where
  "ones_image = Tensor [Tensor (replicate 28 (Tensor (replicate 28 (Scalar 1))))]"

definition demo_network :: NeuralNetwork where
  "demo_network =
     NeuralNetwork_init (\<lambda>k i j. if k = 2 then - 1 else 1) (\<lambda>k i. if k = 4 then real i else 0)"

section \<open>Properties of the network\<close>

lemma bind_err_Inr [simp]: "bind_err (Inr v) f = f v"
  by (simp add: bind_err_def)

lemma bind_err_Inl [simp]: "bind_err (Inl e) f = Inl e"
  by (simp add: bind_err_def)

lemma has_shape_flat: "has_shape ds t \<Longrightarrow> length (flat t) = prod_list ds"
proof (induction ds arbitrary: t)
  case Nil
  then show ?case by (cases t) simp_all
next
  case (Cons n ns)
  then obtain ts where t: "t = Tensor ts" and len: "length ts = n"
    and all: "list_all (has_shape ns) ts"
    by (cases t) simp_all
  have "\<And>e. e \<in> set ts \<Longrightarrow> length (flat e) = prod_list ns"
    using all Cons.IH by (simp add: list_all_iff)
  then have "map (length \<circ> flat) ts = replicate (length ts) (prod_list ns)"
    by (simp add: map_replicate_const [symmetric])
  then show ?case
    using t len by (simp add: length_concat sum_list_replicate)
qed

lemma image28_flat: "image28 img \<Longrightarrow> length (flat img) = 784"
  unfolding image28_def
  using has_shape_flat [of "[28, 28]" img] has_shape_flat [of "[1, 28, 28]" img]
  by (auto simp del: has_shape.simps)

lemma image28_not_Scalar: "image28 img \<Longrightarrow> \<not> is_Scalar img"
  unfolding image28_def by (cases img) auto

lemma nn_Linear_ok: "Linear_ok n_in n_out (nn_Linear w0 b0 n_in n_out)"
  by (simp add: Linear_ok_def nn_Linear_def list_all_iff)

lemma NeuralNetwork_init_ok: "NeuralNetwork_ok (NeuralNetwork_init w0 b0)"
  by (simp add: NeuralNetwork_ok_def NeuralNetwork_init_def nn_Linear_ok)

lemma Flatten_images:
  assumes "\<forall>img\<in>set X. image28 img"
  shows "Flatten (Tensor X) = Inr (map flat X)"
  using assms by (auto simp: Flatten_def list_ex_iff dest: image28_not_Scalar)

lemma length_affine_ok: "Linear_ok n_in n_out l \<Longrightarrow> length (affine l x) = n_out"
  by (simp add: Linear_ok_def affine_def)

lemma Linear_forward_rows:
  assumes "Linear_ok n_in n_out l" and "\<forall>x\<in>set X. length x = n_in"
  shows "Linear_forward l X = Inr (map (affine l) X)"
  using assms by (simp add: Linear_forward_def Linear_ok_def list_all_iff)

lemma length_relu [simp]: "length (relu x) = length x"
  by (simp add: relu_def)

lemma forward_images:
  assumes "NeuralNetwork_ok self" and "\<forall>img\<in>set X. image28 img"
  shows "forward self (Tensor X) = Inr (map (three_linear_two_activations self) X)"
proof -
  have l0: "Linear_ok 784 512 (stack_0 self)" and l2: "Linear_ok 512 512 (stack_2 self)"
    and l4: "Linear_ok 512 10 (stack_4 self)"
    using assms(1) by (simp_all add: NeuralNetwork_ok_def)
  have a: "Linear_forward (stack_0 self) (map flat X) = Inr (map (affine (stack_0 self)) (map flat X))"
    using assms(2) by (intro Linear_forward_rows [OF l0]) (simp add: image28_flat)
  have b: "Linear_forward (stack_2 self) (ReLU (map (affine (stack_0 self)) (map flat X)))
      = Inr (map (affine (stack_2 self)) (ReLU (map (affine (stack_0 self)) (map flat X))))"
    by (intro Linear_forward_rows [OF l2]) (auto simp: ReLU_def length_affine_ok [OF l0])
  have c: "Linear_forward (stack_4 self)
        (ReLU (map (affine (stack_2 self)) (ReLU (map (affine (stack_0 self)) (map flat X)))))
      = Inr (map (affine (stack_4 self))
          (ReLU (map (affine (stack_2 self)) (ReLU (map (affine (stack_0 self)) (map flat X))))))"
    by (intro Linear_forward_rows [OF l4]) (auto simp: ReLU_def length_affine_ok [OF l2])
  show ?thesis
    unfolding forward_def Flatten_images [OF assms(2)] bind_err_Inr a b c
    by (simp add: ReLU_def three_linear_two_activations_def)
qed

lemma length_three_linear:
  "NeuralNetwork_ok self \<Longrightarrow> length (three_linear_two_activations self img) = 10"
  using length_affine_ok [of 512 10 "stack_4 self"]
  by (simp add: three_linear_two_activations_def NeuralNetwork_ok_def)

lemma image28_zeros: "image28 zeros_image"
  by (simp add: image28_def zeros_image_def list_all_iff)

section \<open>Properties of the loaders\<close>

declare chunks.simps [simp del]

lemma chunks_Nil [simp]: "chunks n [] = []"
  by (simp add: chunks.simps)

lemma chunks_step: "0 < n \<Longrightarrow> xs \<noteq> [] \<Longrightarrow> chunks n xs = take n xs # chunks n (drop n xs)"
  by (subst chunks.simps) simp

lemma concat_chunks: "0 < n \<Longrightarrow> concat (chunks n xs) = xs"
proof (induction n xs rule: chunks.induct)
  case (1 n xs)
  show ?case
  proof (cases "xs = []")
    case True
    then show ?thesis by simp
  next
    case False
    with 1 show ?thesis by (simp add: chunks_step)
  qed
qed


lemma batches_unshuffled:
  "\<not> shuffle dl \<Longrightarrow> batches dl perm = chunks (batch_size_of dl) (dataset dl)"
  by (simp add: batches_def sampler_def map_nth)

text \<open>
  C5, as the code has it. In both pipelines the two loaders are constructed without
  shuffling. Whatever permutation a pass would draw, the training loader and the
  evaluation loader yield the samples in the order of their dataset, cut into batches of
  the batch size: the composition of the batches is the same in every epoch.
\<close>

theorem dataloaders_fixed_order:
  assumes "0 < batch_size"
  shows "\<exists>tr te. train_dataloader_of training_data batch_size = Inr tr \<and>
           test_dataloader_of test_data batch_size = Inr te \<and>
           \<not> shuffle tr \<and> \<not> shuffle te \<and>
           (\<forall>perm. batches tr perm = chunks (nat batch_size) training_data \<and>
                   concat (batches tr perm) = training_data) \<and>
           (\<forall>perm. batches te perm = chunks (nat batch_size) test_data \<and>
                   concat (batches te perm) = test_data)"
  using assms
  by (simp add: train_dataloader_of_def test_dataloader_of_def torch_DataLoader_def
      shuffle_default_def batches_unshuffled concat_chunks)

theorem dataloaders_fixed_order_witness:
  "(0::int) < 2 \<and>
   train_dataloader_of three_samples 2 = Inr three_loader \<and>
   batches three_loader [2, 0, 1] = chunks 2 three_samples \<and>
   concat (batches three_loader [2, 0, 1]) = three_samples"
proof -
  have pos: "(0::int) < 2"
    by simp
  obtain tr where tr: "train_dataloader_of three_samples 2 = Inr tr"
    and fixed: "\<forall>perm. batches tr perm = chunks (nat 2) three_samples \<and>
                  concat (batches tr perm) = three_samples"
    using dataloaders_fixed_order [OF pos, of three_samples three_samples] by blast
  have "tr = three_loader"
    using tr
    by (simp add: train_dataloader_of_def torch_DataLoader_def shuffle_default_def
        three_loader_def)
  moreover from fixed have "batches tr [2, 0, 1] = chunks (nat 2) three_samples \<and>
      concat (batches tr [2, 0, 1]) = three_samples"
    by blast
  ultimately show ?thesis
    using tr by auto
qed

text \<open>
  C5, as the specification has it, fails: the training loader of the pipelines does not
  shuffle. Over three samples and with batches of two, two passes that would draw
  different permutations yield the same batches, in the order of the dataset.
\<close>

theorem training_batches_shuffled_counterexample:
  "train_dataloader_of three_samples 2 = Inr three_loader \<and>
   \<not> shuffle three_loader \<and>
   batches three_loader [2, 0, 1] = [[(zeros_image, 0), (zeros_image, 1)], [(zeros_image, 2)]] \<and>
   batches three_loader [1, 2, 0] = [[(zeros_image, 0), (zeros_image, 1)], [(zeros_image, 2)]]"
  by (simp add: train_dataloader_of_def torch_DataLoader_def shuffle_default_def three_loader_def
      batches_def sampler_def three_samples_def chunks.simps upt_rec)

section \<open>Properties of predict\<close>

lemma getitem_Cons_0 [simp]: "getitem (x # xs) 0 = Inr x"
  by (simp add: getitem_def)

lemma predict_Cons:
  "predict M (d # ds) model =
     bind_err (call_method M (eval_method M model) (fst d)) (\<lambda>pred.
     bind_err (getitem pred 0) (\<lambda>pred0.
     bind_err (argmax pred0) (\<lambda>predicted.
     Inr (eval_method M model, Predicted predicted (snd d)))))"
  by (simp add: predict_def Let_def)

lemma forward_training [simp]: "forward (self\<lparr>training := t\<rparr>) x = forward self x"
  by (simp add: forward_def)

lemma has_shape_1_28_28:
  assumes "has_shape [1, 28, 28] x"
  obtains img where "x = Tensor [img]" and "image28 img"
proof -
  from assms obtain ts where x: "x = Tensor ts" and len: "length ts = 1"
    and all: "list_all (has_shape [28, 28]) ts"
    by (cases x) simp_all
  from len obtain img where ts: "ts = [img]"
    by (cases ts) simp_all
  with all have "image28 img"
    by (simp add: image28_def)
  with x ts that show thesis
    by simp
qed

lemma flat_singleton [simp]: "flat (Tensor [img]) = flat img"
  by simp

lemma three_linear_singleton [simp]:
  "three_linear_two_activations self (Tensor [img]) = three_linear_two_activations self img"
  by (simp add: three_linear_two_activations_def)

lemma forward_sample:
  assumes "NeuralNetwork_ok self" and "has_shape [1, 28, 28] x"
  shows "forward self x = Inr [three_linear_two_activations self x]"
proof -
  from assms(2) obtain img where x: "x = Tensor [img]" and img: "image28 img"
    by (rule has_shape_1_28_28)
  have "\<forall>i\<in>set [img]. image28 i"
    using img by simp
  from forward_images [OF assms(1) this] show ?thesis
    by (simp add: x)
qed

lemma three_linear_nonempty:
  "NeuralNetwork_ok self \<Longrightarrow> three_linear_two_activations self x \<noteq> []"
  using length_three_linear [of self x] by auto

lemma predict_NeuralNetwork:
  assumes "NeuralNetwork_ok model" and "has_shape [1, 28, 28] (fst d)"
  shows "predict NeuralNetwork_cls (d # ds) model =
           Inr (model\<lparr>training := False\<rparr>,
                Predicted (argmax_list (three_linear_two_activations model (fst d))) (snd d))"
  using forward_sample [OF assms] three_linear_nonempty [OF assms(1)]
  by (simp add: predict_Cons NeuralNetwork_cls_def NeuralNetwork_eval_def argmax_def)

lemma predict_NeuralNetworkModule:
  assumes "NeuralNetwork_ok (net model)" and "has_shape [1, 28, 28] (fst d)"
  shows "predict NeuralNetworkModule_cls (d # ds) model =
           Inr (model\<lparr>module_training := False, net := (net model)\<lparr>training := False\<rparr>\<rparr>,
                Predicted (argmax_list (three_linear_two_activations (net model) (fst d))) (snd d))"
  using forward_sample [OF assms] three_linear_nonempty [OF assms(1)]
  by (simp add: predict_Cons NeuralNetworkModule_cls_def NeuralNetworkModule_eval_def
      NeuralNetwork_eval_def module_forward_def argmax_def)

text \<open>
  C9, as the code has it. On a dataset that is not empty, whose first sample is an image
  of shape \<open>[1, 28, 28]\<close>, and a network with the shapes the constructor gives,
  \<open>predict\<close> raises nothing; the line it prints holds the arg-max of the scores of the
  first sample and the label of the first sample; it leaves the parameters of the model
  as they are and puts the model in evaluation mode. The same holds of the Lightning
  module, whose mode and whose network's mode are put to evaluation.
\<close>

theorem predict_first_sample:
  assumes "NeuralNetwork_ok model" and "NeuralNetwork_ok (net lit_model)"
    and "has_shape [1, 28, 28] (fst d)"
  shows "predict NeuralNetwork_cls (d # ds) model =
           Inr (model\<lparr>training := False\<rparr>,
                Predicted (argmax_list (three_linear_two_activations model (fst d))) (snd d)) \<and>
         predict NeuralNetworkModule_cls (d # ds) lit_model =
           Inr (lit_model\<lparr>module_training := False, net := (net lit_model)\<lparr>training := False\<rparr>\<rparr>,
                Predicted (argmax_list (three_linear_two_activations (net lit_model) (fst d))) (snd d))"
  using predict_NeuralNetwork [OF assms(1,3)] predict_NeuralNetworkModule [OF assms(2,3)]
  by simp

lemma has_shape_zeros_image: "has_shape [1, 28, 28] zeros_image"
  by (simp add: zeros_image_def list_all_iff)

lemma zeros_network_ok: "NeuralNetwork_ok zeros_network"
  unfolding zeros_network_def by (rule NeuralNetwork_init_ok)

lemma dot_zeros: "\<forall>a\<in>set w. a = 0 \<Longrightarrow> dot w x = 0"
proof (induction w arbitrary: x)
  case Nil
  then show ?case by (simp add: dot_def)
next
  case (Cons a w)
  then show ?case by (cases x) (simp_all add: dot_def)
qed

lemma affine_zeros:
  "affine (nn_Linear (\<lambda>i j. 0) (\<lambda>i. 0) n_in n_out) x = replicate n_out 0"
proof -
  have "map2 (\<lambda>w b. dot w x + b) (map (\<lambda>i. map (\<lambda>j. 0) [0..<n_in]) [0..<n_out])
          (map (\<lambda>i. 0) [0..<n_out]) = map (\<lambda>i. 0) [0..<n_out]"
    by (induction n_out) (simp_all add: dot_zeros)
  then show ?thesis
    by (simp add: affine_def nn_Linear_def map_replicate_const)
qed

lemma zeros_network_scores:
  "three_linear_two_activations zeros_network x = replicate 10 0"
  by (simp add: three_linear_two_activations_def zeros_network_def NeuralNetwork_init_def
      affine_zeros)

lemma argmax_list_replicate: "argmax_list (replicate n 0) = 0"
proof (induction n)
  case 0
  then show ?case by simp
next
  case (Suc n)
  then show ?case by (cases n) simp_all
qed

theorem predict_first_sample_witness:
  "NeuralNetwork_ok zeros_network \<and>
   has_shape [1, 28, 28] (fst (zeros_image, 7::int)) \<and>
   predict NeuralNetwork_cls [(zeros_image, 7), (zeros_image, 3)] zeros_network =
     Inr (zeros_network\<lparr>training := False\<rparr>, Predicted 0 7)"
proof -
  have shape: "has_shape [1, 28, 28] (fst (zeros_image, 7::int))"
    by (simp only: fst_conv has_shape_zeros_image)
  have ok': "NeuralNetwork_ok (net (NeuralNetworkModule_init (\<lambda>k i j. 0) (\<lambda>k i. 0)))"
    by (simp add: NeuralNetworkModule_init_def NeuralNetwork_init_ok)
  show ?thesis
    using predict_first_sample [OF zeros_network_ok ok' shape, of "[(zeros_image, 3)]"]
      zeros_network_ok shape
    by (simp add: zeros_network_scores argmax_list_replicate del: has_shape.simps)
qed

text \<open>
  C9, as the specification has it, fails: \<open>predict\<close> calls \<open>model.eval()\<close>, so a model
  that is in training mode, as a newly constructed one is, is not the same after the call.
\<close>

theorem predict_side_effect_free_counterexample:
  "predict NeuralNetwork_cls [(zeros_image, 7)] zeros_network =
     Inr (zeros_network\<lparr>training := False\<rparr>, Predicted 0 7) \<and>
   training zeros_network \<and>
   zeros_network\<lparr>training := False\<rparr> \<noteq> zeros_network"
proof -
  have shape: "has_shape [1, 28, 28] (fst (zeros_image, 7::int))"
    by (simp only: fst_conv has_shape_zeros_image)
  have t: "training zeros_network"
    by (simp add: zeros_network_def NeuralNetwork_init_def)
  then have "training (zeros_network\<lparr>training := False\<rparr>) \<noteq> training zeros_network"
    by simp
  then have "zeros_network\<lparr>training := False\<rparr> \<noteq> zeros_network"
    by metis
  then show ?thesis
    using predict_NeuralNetwork [OF zeros_network_ok shape, of "[]"] t
    by (simp add: zeros_network_scores argmax_list_replicate)
qed

text \<open>
  C10. Whatever the module, two datasets with the same first sample give \<open>predict\<close> the
  same result: nothing of the dataset is read but its first element. For the network,
  what \<open>predict\<close> reports is the same whatever the mode the model was in: it depends on
  the parameters and the first sample only.
\<close>

theorem predict_reads_first_sample_only:
  "predict M (d # ds) model = predict M (d # ds') model \<and>
   reported (predict NeuralNetwork_cls (d # ds) (network\<lparr>training := t\<rparr>)) =
     reported (predict NeuralNetwork_cls (d # ds') network)"
  by (simp add: predict_Cons NeuralNetwork_cls_def NeuralNetwork_eval_def reported_def
      bind_err_def split: sum.splits)

theorem predict_reads_first_sample_only_witness:
  "predict NeuralNetwork_cls [(zeros_image, 7), (zeros_image, 3)] zeros_network =
     predict NeuralNetwork_cls [(zeros_image, 7)] zeros_network \<and>
   reported (predict NeuralNetwork_cls [(zeros_image, 7), (zeros_image, 3)]
       (zeros_network\<lparr>training := False\<rparr>)) =
     reported (predict NeuralNetwork_cls [(zeros_image, 7)] zeros_network)"
  using predict_reads_first_sample_only
    [where M = NeuralNetwork_cls and d = "(zeros_image, 7)" and ds = "[(zeros_image, 3)]"
      and ds' = "[]" and model = zeros_network and network = zeros_network and t = False]
  by simp

section \<open>Properties of the loss\<close>

lemma sum_list_exp_nonneg: "0 \<le> sum_list (map exp (v :: real list))"
  by (rule sum_list_nonneg) auto

lemma sum_list_exp_pos: "v \<noteq> [] \<Longrightarrow> 0 < sum_list (map exp (v :: real list))"
proof (cases v)
  case Nil
  assume "v \<noteq> []"
  with Nil show ?thesis by simp
next
  case (Cons a w)
  have "0 < exp a + sum_list (map exp w)"
    by (rule add_pos_nonneg) (simp_all add: sum_list_exp_nonneg)
  with Cons show ?thesis by simp
qed

lemma exp_le_sum_list: "c < length v \<Longrightarrow> exp (v ! c) \<le> sum_list (map exp (v :: real list))"
proof (induction v arbitrary: c)
  case Nil
  then show ?case by simp
next
  case (Cons a v)
  have nn: "0 \<le> sum_list (map exp v)"
    by (rule sum_list_exp_nonneg)
  show ?case
  proof (cases c)
    case 0
    with nn show ?thesis by simp
  next
    case (Suc k)
    with Cons have "exp (v ! k) \<le> sum_list (map exp v)"
      by simp
    then have "exp (v ! k) \<le> exp a + sum_list (map exp v)"
      by (rule add_increasing [rotated]) simp
    then show ?thesis
      using Suc by simp
  qed
qed

lemma log_softmax_at_le_0: "c < length v \<Longrightarrow> log_softmax_at v c \<le> 0"
proof -
  assume c: "c < length v"
  then have "exp (v ! c) \<le> sum_list (map exp v)"
    by (rule exp_le_sum_list)
  then have "ln (exp (v ! c)) \<le> ln (sum_list (map exp v))"
    using c by (subst ln_le_cancel_iff) (auto intro: sum_list_exp_pos)
  then show ?thesis
    by (simp add: log_softmax_at_def)
qed

text \<open>Labels that are class indices of the rows they stand beside.\<close>

lemma CrossEntropyLoss_ok:
  assumes "length pred = length y" and "pred \<noteq> []"
    and "\<forall>vc\<in>set (zip pred y). 0 \<le> snd vc \<and> snd vc < int (length (fst vc))"
  shows "\<exists>loss. CrossEntropyLoss pred y = Inr loss \<and> 0 \<le> loss"
proof -
  have kept: "filter (\<lambda>vc. snd vc \<noteq> - 100) (zip pred y) = zip pred y"
    using assms(3) by (auto simp: filter_id_conv)
  have ne: "zip pred y \<noteq> []"
    using assms(1,2) by (cases pred; cases y) simp_all
  have "\<And>vc. vc \<in> set (zip pred y) \<Longrightarrow> 0 \<le> - log_softmax_at (fst vc) (nat (snd vc))"
    using assms(3) log_softmax_at_le_0 by force
  then have "0 \<le> sum_list (map (\<lambda>vc. - log_softmax_at (fst vc) (nat (snd vc))) (zip pred y))"
    by (intro sum_list_nonneg) auto
  then have "0 \<le> sum_list (map (\<lambda>vc. - log_softmax_at (fst vc) (nat (snd vc))) (zip pred y))
      / real (length (zip pred y))"
    by simp
  moreover have "\<not> list_ex (\<lambda>vc. snd vc < 0 \<or> int (length (fst vc)) \<le> snd vc) (zip pred y)"
    using assms(3) by (auto simp: list_ex_iff)
  ultimately show ?thesis
    using assms(1) ne by (simp add: CrossEntropyLoss_def kept Let_def)
qed

lemma CrossEntropyLoss_scores:
  assumes "NeuralNetwork_ok self" and "length y = length X" and "X \<noteq> []"
    and "\<forall>c\<in>set y. 0 \<le> c \<and> c < 10"
  shows "\<exists>loss. CrossEntropyLoss (map (three_linear_two_activations self) X) y = Inr loss \<and> 0 \<le> loss"
proof (rule CrossEntropyLoss_ok)
  show "length (map (three_linear_two_activations self) X) = length y"
    using assms(2) by simp
  show "map (three_linear_two_activations self) X \<noteq> []"
    using assms(3) by simp
  show "\<forall>vc\<in>set (zip (map (three_linear_two_activations self) X) y).
      0 \<le> snd vc \<and> snd vc < int (length (fst vc))"
  proof
    fix vc
    assume vc: "vc \<in> set (zip (map (three_linear_two_activations self) X) y)"
    obtain v c where "vc = (v, c)"
      by (cases vc)
    with vc have "fst vc \<in> set (map (three_linear_two_activations self) X)" and "snd vc \<in> set y"
      by (auto dest: set_zip_leftD set_zip_rightD)
    then show "0 \<le> snd vc \<and> snd vc < int (length (fst vc))"
      using assms(4) length_three_linear [OF assms(1)] by auto
  qed
qed

section \<open>Properties of the Lightning module\<close>

text \<open>
  C6. On a batch of images with as many labels, each a class index, the training-step
  callback of a module whose network has the constructor's shapes raises nothing. It
  calls the network and the loss function and logs the loss as \<open>train_loss\<close>: these
  are all the calls it makes, none of them a backward pass or an optimizer step, and the
  network and the metric are as before. It returns the cross-entropy loss of the batch
  under the key \<open>loss\<close>. The optimizer-configuration callback returns one optimizer:
  stochastic gradient descent over the parameters of the module, with the learning rate
  0.01 and the momentum 0.9.
\<close>

theorem training_step_leaves_update_to_trainer:
  assumes "NeuralNetwork_ok (net self)" and "\<forall>img\<in>set X. image28 img"
    and "length y = length X" and "X \<noteq> []" and "\<forall>c\<in>set y. 0 \<le> c \<and> c < 10"
  shows "\<exists>loss.
           CrossEntropyLoss (map (three_linear_two_activations (net self)) X) y = Inr loss \<and>
           training_step self (Tensor X, y) batch_idx =
             Inr (self\<lparr>logged := logged self @ [(''train_loss'', loss)],
                       made := made self @ [Module_call, Loss_call, Log ''train_loss'' loss]\<rparr>,
                  [(''loss'', loss)]) \<and>
           (configure_optimizers self :: 'b SGD) =
             \<lparr>param_refs = map (\<lambda>k. ''model.'' @ k) parameters, lr = 1 / 100,
              momentum = 9 / 10, momentum_buffers = None\<rparr>"
proof -
  obtain loss where
    loss: "CrossEntropyLoss (map (three_linear_two_activations (net self)) X) y = Inr loss"
    using CrossEntropyLoss_scores [OF assms(1,3,4,5)] by blast
  have "training_step self (Tensor X, y) batch_idx =
      Inr (self\<lparr>logged := logged self @ [(''train_loss'', loss)],
                made := made self @ [Module_call, Loss_call, Log ''train_loss'' loss]\<rparr>,
           [(''loss'', loss)])"
    by (simp add: training_step_def module_forward_def forward_images [OF assms(1,2)] loss
        did_def self_log_def)
  then show ?thesis
    using loss
    by (simp add: configure_optimizers_def optim_SGD_def module_parameters_def)
qed

lemma net_zeros_module: "net zeros_module = zeros_network"
  by (simp add: zeros_module_def zeros_network_def NeuralNetworkModule_init_def)

lemma CrossEntropyLoss_zeros: "CrossEntropyLoss [replicate 10 0] [3] = Inr (ln 10)"
  by (simp add: CrossEntropyLoss_def log_softmax_at_def sum_list_replicate)

theorem training_step_leaves_update_to_trainer_witness:
  "NeuralNetwork_ok (net zeros_module) \<and> list_all image28 [zeros_image] \<and>
   length [3 :: int] = length [zeros_image] \<and>
   training_step zeros_module (Tensor [zeros_image], [3]) 0 =
     Inr (zeros_module\<lparr>logged := [(''train_loss'', ln 10)],
                         made := [Module_call, Loss_call, Log ''train_loss'' (ln 10)]\<rparr>,
          [(''loss'', ln 10)])"
proof -
  have ok: "NeuralNetwork_ok (net zeros_module)"
    by (simp add: net_zeros_module zeros_network_ok)
  have im: "\<forall>img\<in>set [zeros_image]. image28 img"
    by (simp add: image28_zeros)
  have len: "length [3 :: int] = length [zeros_image]" and ne: "[zeros_image] \<noteq> []"
    and lab: "\<forall>c\<in>set [3 :: int]. 0 \<le> c \<and> c < 10"
    by simp_all
  have start: "logged zeros_module = []" "made zeros_module = []"
    by (simp_all add: zeros_module_def NeuralNetworkModule_init_def)
  show ?thesis
    using training_step_leaves_update_to_trainer [where 'b = unit, OF ok im len ne lab, of 0] ok
    by (simp add: net_zeros_module zeros_network_scores CrossEntropyLoss_zeros start
        image28_zeros)
qed

section \<open>Properties of persistence\<close>

lemma map_const_replicate: "\<forall>x\<in>set xs. f x = c \<Longrightarrow> map f xs = replicate (length xs) c"
  by (induction xs) simp_all

lemma Linear_ok_shape:
  "Linear_ok n_in n_out l \<Longrightarrow>
     map length (weight l) = replicate n_out n_in \<and> length (bias l) = n_out"
  using map_const_replicate [of "weight l" length n_in]
  by (simp add: Linear_ok_def list_all_iff)

lemma Linear_ok_eq:
  "Linear_ok n_in n_out l \<Longrightarrow>
     \<lparr>in_features = n_in, out_features = n_out, weight = weight l, bias = bias l\<rparr> = l"
  by (simp add: Linear_ok_def)

lemma load_Linear_ok:
  assumes "Linear_ok n_in n_out l" and "Linear_ok n_in n_out l'"
  shows "load_Linear l' (Some (Tensor2 (weight l))) (Some (Tensor1 (bias l))) = Inr l"
proof -
  have "l'\<lparr>weight := weight l, bias := bias l\<rparr> = l"
    using assms by (simp add: Linear_ok_def)
  then show ?thesis
    using Linear_ok_shape [OF assms(1)] Linear_ok_shape [OF assms(2)]
    by (simp add: load_Linear_def)
qed

lemma map_fst_state_dict: "map fst (state_dict self) = parameters"
  by (simp add: state_dict_def parameters_def)

lemma load_state_dict_state_dict:
  assumes "NeuralNetwork_ok model" and "NeuralNetwork_ok new"
  shows "load_state_dict new (state_dict model) = Inr (model\<lparr>training := training new\<rparr>)"
proof -
  have l0: "load_Linear (stack_0 new) (Some (Tensor2 (weight (stack_0 model))))
      (Some (Tensor1 (bias (stack_0 model)))) = Inr (stack_0 model)"
    using assms by (intro load_Linear_ok [of "28 * 28" 512]) (simp_all add: NeuralNetwork_ok_def)
  have l2: "load_Linear (stack_2 new) (Some (Tensor2 (weight (stack_2 model))))
      (Some (Tensor1 (bias (stack_2 model)))) = Inr (stack_2 model)"
    using assms by (intro load_Linear_ok [of 512 512]) (simp_all add: NeuralNetwork_ok_def)
  have l4: "load_Linear (stack_4 new) (Some (Tensor2 (weight (stack_4 model))))
      (Some (Tensor1 (bias (stack_4 model)))) = Inr (stack_4 model)"
    using assms by (intro load_Linear_ok [of 512 10]) (simp_all add: NeuralNetwork_ok_def)
  have keys: "set (map fst (state_dict model)) = set parameters"
    by (simp only: map_fst_state_dict)
  have "load_state_dict new (state_dict model) =
      Inr (new\<lparr>stack_0 := stack_0 model, stack_2 := stack_2 model, stack_4 := stack_4 model\<rparr>)"
    unfolding load_state_dict_def using keys
    by (simp add: state_dict_def l0 l2 l4)
  then show ?thesis
    by simp
qed

lemma drop_prefix_state_dict:
  "map (\<lambda>kv. (drop 6 (fst kv), snd kv)) (module_state_dict self) = state_dict (net self)"
  by (simp add: module_state_dict_def state_dict_def)

lemma prefix_state_dict:
  "\<not> list_ex (\<lambda>kv. take 6 (fst kv) \<noteq> ''model.'') (module_state_dict self)"
  by (simp add: module_state_dict_def state_dict_def)

lemma module_load_state_dict_state_dict:
  assumes "NeuralNetwork_ok (net lit_model)" and "NeuralNetwork_ok (net new)"
  shows "module_load_state_dict new (module_state_dict lit_model) =
           Inr (new\<lparr>net := (net lit_model)\<lparr>training := training (net new)\<rparr>\<rparr>)"
  by (simp add: module_load_state_dict_def prefix_state_dict drop_prefix_state_dict
      load_state_dict_state_dict [OF assms])

lemma predict_training [simp]:
  "reported (predict NeuralNetwork_cls ds (model\<lparr>training := t\<rparr>)) =
     reported (predict NeuralNetwork_cls ds model)"
  by (simp add: predict_def NeuralNetwork_cls_def NeuralNetwork_eval_def reported_def Let_def)

lemma predict_module_net:
  "net a = (net b)\<lparr>training := t\<rparr> \<Longrightarrow>
     reported (predict NeuralNetworkModule_cls ds a) = reported (predict NeuralNetworkModule_cls ds b)"
  by (simp add: predict_def NeuralNetworkModule_cls_def NeuralNetworkModule_eval_def
      NeuralNetwork_eval_def module_forward_def reported_def Let_def bind_err_def
      split: sum.splits)

lemma reported_bind:
  "reported r = (case r of Inl e \<Rightarrow> Inl e | Inr mp \<Rightarrow> Inr (snd mp))"
  by (simp add: reported_def)

text \<open>
  C1. For a network with the shapes the constructor gives, whatever the files, the
  dataset and the initial values of the newly constructed network: saving the state
  dict to \<open>model.pth\<close>, constructing a new network and loading the file into it raises
  nothing, and \<open>predict\<close> on the network loaded reports what \<open>predict\<close> on the
  network saved reports, on every input. The same holds of the Lightning module with
  the checkpoint \<open>model.ckpt\<close>.
\<close>

theorem save_load_predict_round_trip:
  assumes "NeuralNetwork_ok model" and "NeuralNetwork_ok (net lit_model)"
  shows "(case run_pytorch_reload env model of Inl e \<Rightarrow> Inl e | Inr r \<Rightarrow> Inr (snd (snd r))) =
           reported (predict NeuralNetwork_cls (mnist_test env) model) \<and>
         (case run_pytorch_lightning_reload env lit_model of
            Inl e \<Rightarrow> Inl e | Inr r \<Rightarrow> Inr (snd (snd r))) =
           reported (predict NeuralNetworkModule_cls (mnist_test env) lit_model) \<and>
         load_state_dict (NeuralNetwork_init w0 b0) (state_dict model) =
           Inr (model\<lparr>training := True\<rparr>)"
proof -
  let ?new = "NeuralNetwork_init (initial_weight env 1) (initial_bias env 1)"
  let ?lit = "NeuralNetworkModule_init (initial_weight env 1) (initial_bias env 1)"
  have new: "NeuralNetwork_ok ?new"
    by (rule NeuralNetwork_init_ok)
  have lit: "NeuralNetwork_ok (net ?lit)"
    by (simp add: NeuralNetworkModule_init_def NeuralNetwork_init_ok)
  have tr: "training ?new"
    by (simp add: NeuralNetwork_init_def)
  have a: "load_state_dict ?new (state_dict model) = Inr (model\<lparr>training := True\<rparr>)"
    using load_state_dict_state_dict [OF assms(1) new] tr by simp
  have b: "module_load_state_dict ?lit (module_state_dict lit_model) =
      Inr (?lit\<lparr>net := (net lit_model)\<lparr>training := training (net ?lit)\<rparr>\<rparr>)"
    by (rule module_load_state_dict_state_dict [OF assms(2) lit])
  have one: "(case run_pytorch_reload env model of Inl e \<Rightarrow> Inl e | Inr r \<Rightarrow> Inr (snd (snd r))) =
      reported (predict NeuralNetwork_cls (mnist_test env) (model\<lparr>training := True\<rparr>))"
    by (simp add: run_pytorch_reload_def torch_save_def torch_load_def a reported_def
        bind_err_def Let_def del: One_nat_def split: sum.splits)
  have two: "(case run_pytorch_lightning_reload env lit_model of
        Inl e \<Rightarrow> Inl e | Inr r \<Rightarrow> Inr (snd (snd r))) =
      reported (predict NeuralNetworkModule_cls (mnist_test env)
        (?lit\<lparr>net := (net lit_model)\<lparr>training := training (net ?lit)\<rparr>\<rparr>))"
    by (simp add: run_pytorch_lightning_reload_def save_checkpoint_def load_from_checkpoint_def
        torch_save_def torch_load_def b reported_def bind_err_def Let_def
        del: One_nat_def split: sum.splits)
  have three: "load_state_dict (NeuralNetwork_init w0 b0) (state_dict model) =
      Inr (model\<lparr>training := True\<rparr>)"
    using load_state_dict_state_dict [OF assms(1) NeuralNetwork_init_ok [of w0 b0]]
    by (simp add: NeuralNetwork_init_def)
  show ?thesis
    using one two three
      predict_module_net [where a = "?lit\<lparr>net := (net lit_model)\<lparr>training := training (net ?lit)\<rparr>\<rparr>"
        and b = lit_model and t = "training (net ?lit)" and ds = "mnist_test env"]
    by auto
qed

theorem save_load_predict_round_trip_witness:
  "NeuralNetwork_ok zeros_network \<and> NeuralNetwork_ok (net zeros_module) \<and>
   (case run_pytorch_reload small_env zeros_network of
      Inl e \<Rightarrow> Inl e | Inr r \<Rightarrow> Inr (snd (snd r))) = Inr (Predicted 0 0) \<and>
   (case run_pytorch_lightning_reload small_env zeros_module of
      Inl e \<Rightarrow> Inl e | Inr r \<Rightarrow> Inr (snd (snd r))) = Inr (Predicted 0 0)"
proof -
  have ok: "NeuralNetwork_ok zeros_network" and ok': "NeuralNetwork_ok (net zeros_module)"
    by (simp_all add: net_zeros_module zeros_network_ok)
  have shape: "has_shape [1, 28, 28] (fst (zeros_image, 0::int))"
    by (simp only: fst_conv has_shape_zeros_image)
  have test: "mnist_test small_env = (zeros_image, 0) # [(zeros_image, 1), (zeros_image, 2)]"
    by (simp add: small_env_def three_samples_def)
  have a: "reported (predict NeuralNetwork_cls (mnist_test small_env) zeros_network) =
      Inr (Predicted 0 0)"
    unfolding test predict_NeuralNetwork [OF ok shape]
    by (simp add: reported_def zeros_network_scores argmax_list_replicate)
  have b: "reported (predict NeuralNetworkModule_cls (mnist_test small_env) zeros_module) =
      Inr (Predicted 0 0)"
    unfolding test predict_NeuralNetworkModule [OF ok' shape]
    by (simp add: reported_def net_zeros_module zeros_network_scores argmax_list_replicate)
  show ?thesis
    using save_load_predict_round_trip [OF ok ok', of small_env] ok ok' a b
    by simp
qed

section \<open>Properties of train\<close>

lemma batches_three_loader:
  "batches three_loader perm = [[(zeros_image, 0), (zeros_image, 1)], [(zeros_image, 2)]]"
  by (simp add: three_loader_def batches_def sampler_def three_samples_def chunks.simps upt_rec)

lemma valid_sample_zeros: "0 \<le> c \<Longrightarrow> c < 10 \<Longrightarrow> valid_sample (zeros_image, c)"
  unfolding valid_sample_def using has_shape_zeros_image by simp

lemma valid_batches_three_loader: "\<forall>b\<in>set (batches three_loader perm). valid_batch b"
  by (simp add: batches_three_loader valid_batch_def valid_sample_zeros)

lemma keeps_shapes_idle: "keeps_shapes idle_torch"
  by (simp add: keeps_shapes_def idle_torch_def)

lemma valid_sample_image28: "valid_sample d \<Longrightarrow> image28 (fst d)"
  unfolding valid_sample_def image28_def by blast

lemma valid_sample_label: "valid_sample d \<Longrightarrow> 0 \<le> snd d \<and> snd d < 10"
  unfolding valid_sample_def by blast

lemma valid_batch_forward:
  assumes "NeuralNetwork_ok m" and "valid_batch b"
  shows "forward m (Tensor (map fst b)) = Inr (map (three_linear_two_activations m) (map fst b))"
proof (rule forward_images [OF assms(1)])
  show "\<forall>img\<in>set (map fst b). image28 img"
    using assms(2) by (auto simp: valid_batch_def list_all_iff intro: valid_sample_image28)
qed

lemma valid_batch_loss:
  assumes "NeuralNetwork_ok m" and "valid_batch b"
  shows "\<exists>loss. CrossEntropyLoss (map (three_linear_two_activations m) (map fst b)) (map snd b)
           = Inr loss \<and> 0 \<le> loss"
proof (rule CrossEntropyLoss_scores [OF assms(1)])
  show "length (map snd b) = length (map fst b)"
    by simp
  show "map fst b \<noteq> []"
    using assms(2) by (simp add: valid_batch_def)
  show "\<forall>c\<in>set (map snd b). 0 \<le> c \<and> c < 10"
    using assms(2) by (auto simp: valid_batch_def list_all_iff dest: valid_sample_label)
qed

lemma NeuralNetwork_ok_training [simp]:
  "NeuralNetwork_ok (m\<lparr>training := t\<rparr>) = NeuralNetwork_ok m"
  by (simp add: NeuralNetwork_ok_def)

lemma train_batch_ok:
  assumes "NeuralNetwork_ok (s_model s)" and "valid_batch b"
  shows "\<exists>s' new. train_batch T NeuralNetwork_cls device CrossEntropyLoss n i b s = Inr s' \<and>
           (s_model s', s_grads s', s_optimizer s') =
             one_update T CrossEntropyLoss b (s_model s, s_grads s, s_optimizer s) \<and>
           s_calls s' = s_calls s @ new \<and>
           filter (\<lambda>c. \<not> is_Print c) new = batch_calls device"
proof -
  obtain loss where loss: "CrossEntropyLoss
      (map (three_linear_two_activations (s_model s)) (map fst b)) (map snd b) = Inr loss"
    using valid_batch_loss [OF assms] by blast
  then have loss': "CrossEntropyLoss
      (map (three_linear_two_activations (s_model s) \<circ> fst) b) (map snd b) = Inr loss"
    by simp
  let ?g = "backward T CrossEntropyLoss (s_model s) (Tensor (map fst b)) (map snd b)
      (zero_grad T (s_grads s))"
  let ?s1 = "s\<lparr>s_grads := ?g, s_optimizer := fst (step T (s_optimizer s) ?g (s_model s)),
      s_model := snd (step T (s_optimizer s) ?g (s_model s)),
      s_calls := s_calls s @ batch_calls device\<rparr>"
  let ?p = "Print (Progress loss (i * length b) n)"
  have run: "train_batch T NeuralNetwork_cls device CrossEntropyLoss n i b s =
      Inr (if i mod 100 = 0 then called ?p ?s1 else ?s1)"
    by (simp add: train_batch_def Let_def called_def collate_def NeuralNetwork_cls_def
        valid_batch_forward [OF assms] loss' batch_calls_def)
  have upd: "one_update T CrossEntropyLoss b (s_model s, s_grads s, s_optimizer s) =
      (s_model ?s1, s_grads ?s1, s_optimizer ?s1)"
    by (simp add: one_update_def Let_def)
  have np: "filter (\<lambda>c. \<not> is_Print c) (batch_calls device) = batch_calls device"
    by (simp add: batch_calls_def is_Print_def)
  have isp: "is_Print ?p"
    by (simp add: is_Print_def)
  show ?thesis
  proof (cases "i mod 100 = 0")
    case True
    have r: "train_batch T NeuralNetwork_cls device CrossEntropyLoss n i b s =
        Inr (called ?p ?s1)"
      using run True by simp
    have f: "filter (\<lambda>c. \<not> is_Print c) (batch_calls device @ [?p]) = batch_calls device"
      by (simp add: np isp)
    show ?thesis
      by (rule exI [of _ "called ?p ?s1"], rule exI [of _ "batch_calls device @ [?p]"])
        (simp add: r upd np isp called_def)
  next
    case False
    have r: "train_batch T NeuralNetwork_cls device CrossEntropyLoss n i b s = Inr ?s1"
      using run False by simp
    show ?thesis
      by (rule exI [of _ ?s1], rule exI [of _ "batch_calls device"]) (simp add: r upd np)
  qed
qed

lemma train_loop_ok:
  assumes "keeps_shapes T" and "NeuralNetwork_ok (s_model s)" and "\<forall>b\<in>set bs. valid_batch b"
  shows "\<exists>s' new. train_loop T NeuralNetwork_cls device CrossEntropyLoss n i bs s = Inr s' \<and>
           NeuralNetwork_ok (s_model s') \<and>
           (s_model s', s_grads s', s_optimizer s') =
             fold (one_update T CrossEntropyLoss) bs (s_model s, s_grads s, s_optimizer s) \<and>
           s_calls s' = s_calls s @ new \<and>
           filter (\<lambda>c. \<not> is_Print c) new = concat (replicate (length bs) (batch_calls device))"
  using assms(2,3)
proof (induction bs arbitrary: s i)
  case Nil
  then show ?case by simp
next
  case (Cons b bs)
  from Cons.prems have vb: "valid_batch b" and rest: "\<forall>b\<in>set bs. valid_batch b"
    by simp_all
  obtain s1 new1 where
    s1: "train_batch T NeuralNetwork_cls device CrossEntropyLoss n i b s = Inr s1"
    and st1: "(s_model s1, s_grads s1, s_optimizer s1) =
      one_update T CrossEntropyLoss b (s_model s, s_grads s, s_optimizer s)"
    and c1: "s_calls s1 = s_calls s @ new1"
    and f1: "filter (\<lambda>c. \<not> is_Print c) new1 = batch_calls device"
    using train_batch_ok [OF Cons.prems(1) vb] by blast
  have "s_model s1 = snd (step T (s_optimizer s)
      (backward T CrossEntropyLoss (s_model s) (Tensor (map fst b)) (map snd b)
        (zero_grad T (s_grads s))) (s_model s))"
    using st1 by (simp add: one_update_def Let_def)
  then have ok1: "NeuralNetwork_ok (s_model s1)"
    using assms(1) Cons.prems(1) by (simp add: keeps_shapes_def)
  obtain s2 new2 where
    s2: "train_loop T NeuralNetwork_cls device CrossEntropyLoss n (Suc i) bs s1 = Inr s2"
    and ok2: "NeuralNetwork_ok (s_model s2)"
    and st2: "(s_model s2, s_grads s2, s_optimizer s2) =
      fold (one_update T CrossEntropyLoss) bs (s_model s1, s_grads s1, s_optimizer s1)"
    and c2: "s_calls s2 = s_calls s1 @ new2"
    and f2: "filter (\<lambda>c. \<not> is_Print c) new2 = concat (replicate (length bs) (batch_calls device))"
    using Cons.IH [OF ok1 rest] by blast
  have "train_loop T NeuralNetwork_cls device CrossEntropyLoss n i (b # bs) s = Inr s2"
    by (simp add: s1 s2)
  moreover have "(s_model s2, s_grads s2, s_optimizer s2) =
      fold (one_update T CrossEntropyLoss) (b # bs) (s_model s, s_grads s, s_optimizer s)"
    by (simp add: st2 st1)
  moreover have "s_calls s2 = s_calls s @ (new1 @ new2)"
    by (simp add: c1 c2)
  moreover have "filter (\<lambda>c. \<not> is_Print c) (new1 @ new2) =
      concat (replicate (length (b # bs)) (batch_calls device))"
    by (simp add: f1 f2)
  ultimately show ?case
    using ok2 by blast
qed

text \<open>
  C3. For a network with the constructor's shapes, the cross-entropy loss, an optimizer
  that keeps the shapes of the parameters, and a loader whose batches are well formed,
  \<open>train\<close> raises nothing. After putting the model in training mode it makes, for
  every batch the loader yields and in this order, the calls that move the images and the
  labels to the device, compute the predictions, compute the loss, clear the gradients,
  back-propagate and step the optimizer, once each; between the passes it only prints
  progress. The model, the gradients and the optimizer it leaves are those of one update
  per batch, in the order of the batches.
\<close>

theorem train_one_update_per_batch:
  assumes "keeps_shapes T" and "NeuralNetwork_ok (s_model s)"
    and "\<forall>b\<in>set (batches dataloader perm). valid_batch b"
  shows "\<exists>s' new. train T NeuralNetwork_cls dataloader perm device CrossEntropyLoss s = Inr s' \<and>
           s_calls s' = s_calls s @ Module_train # new \<and>
           filter (\<lambda>c. \<not> is_Print c) new =
             concat (replicate (length (batches dataloader perm)) (batch_calls device)) \<and>
           (s_model s', s_grads s', s_optimizer s') =
             fold (one_update T CrossEntropyLoss) (batches dataloader perm)
               ((s_model s)\<lparr>training := True\<rparr>, s_grads s, s_optimizer s)"
proof -
  let ?s0 = "called Module_train (s\<lparr>s_model := train_method NeuralNetwork_cls (s_model s)\<rparr>)"
  have ok0: "NeuralNetwork_ok (s_model ?s0)"
    using assms(2) by (simp add: called_def NeuralNetwork_cls_def NeuralNetwork_train_def)
  obtain s' new where
    "train_loop T NeuralNetwork_cls device CrossEntropyLoss (length (dataset dataloader)) 0
       (batches dataloader perm) ?s0 = Inr s'"
    and "(s_model s', s_grads s', s_optimizer s') =
      fold (one_update T CrossEntropyLoss) (batches dataloader perm)
        (s_model ?s0, s_grads ?s0, s_optimizer ?s0)"
    and "s_calls s' = s_calls ?s0 @ new"
    and "filter (\<lambda>c. \<not> is_Print c) new =
      concat (replicate (length (batches dataloader perm)) (batch_calls device))"
    using train_loop_ok [OF assms(1) ok0 assms(3)] by blast
  then show ?thesis
    by (simp add: train_def Let_def called_def NeuralNetwork_cls_def NeuralNetwork_train_def)
qed

theorem train_one_update_per_batch_witness:
  "keeps_shapes idle_torch \<and> NeuralNetwork_ok (s_model zeros_session) \<and>
   list_all valid_batch (batches three_loader []) \<and>
   (case train idle_torch NeuralNetwork_cls three_loader [] ''cpu'' CrossEntropyLoss zeros_session of
      Inl e \<Rightarrow> False
    | Inr s' \<Rightarrow>
        filter (\<lambda>c. \<not> is_Print c) (s_calls s') =
          Module_train # batch_calls ''cpu'' @ batch_calls ''cpu'' \<and>
        s_model s' = zeros_network)"
proof -
  have ok: "NeuralNetwork_ok (s_model zeros_session)"
    by (simp add: zeros_session_def zeros_network_ok)
  have t: "zeros_network\<lparr>training := True\<rparr> = zeros_network"
    by (simp add: zeros_network_def NeuralNetwork_init_def)
  obtain s' new where
    run: "train idle_torch NeuralNetwork_cls three_loader [] ''cpu'' CrossEntropyLoss zeros_session
        = Inr s'"
    and calls: "s_calls s' = s_calls zeros_session @ Module_train # new"
    and new: "filter (\<lambda>c. \<not> is_Print c) new =
        concat (replicate (length (batches three_loader [])) (batch_calls ''cpu''))"
    and state: "(s_model s', s_grads s', s_optimizer s') =
        fold (one_update idle_torch CrossEntropyLoss) (batches three_loader [])
          ((s_model zeros_session)\<lparr>training := True\<rparr>, s_grads zeros_session,
           s_optimizer zeros_session)"
    using train_one_update_per_batch [OF keeps_shapes_idle ok valid_batches_three_loader]
    by blast
  have "s_model s' = zeros_network"
    using state
    by (simp add: batches_three_loader one_update_def idle_torch_def zeros_session_def t)
  moreover have "filter (\<lambda>c. \<not> is_Print c) (s_calls s') =
      Module_train # batch_calls ''cpu'' @ batch_calls ''cpu''"
    using calls new by (simp add: batches_three_loader zeros_session_def is_Print_def)
  ultimately show ?thesis
    using run keeps_shapes_idle ok valid_batches_three_loader
    by (simp add: list_all_iff)
qed

section \<open>Properties of test\<close>





lemma batch_loss_nonneg: "NeuralNetwork_ok m \<Longrightarrow> valid_batch b \<Longrightarrow> 0 \<le> batch_loss m b"
  using valid_batch_loss [of m b] by (auto simp: batch_loss_def)



lemma three_linear_training [simp]:
  "three_linear_two_activations (m\<lparr>training := t\<rparr>) = three_linear_two_activations m"
  by (rule ext) (simp add: three_linear_two_activations_def)

lemma top1_correct_training [simp]: "top1_correct (m\<lparr>training := t\<rparr>) = top1_correct m"
  by (rule ext) (simp add: top1_correct_def)

lemma batch_loss_training [simp]: "batch_loss (m\<lparr>training := t\<rparr>) = batch_loss m"
  by (rule ext) (simp add: batch_loss_def)


lemma length_concat_batches:
  "0 < batch_size_of dl \<Longrightarrow> length (concat (batches dl perm)) = length (sampler dl perm)"
  by (simp add: batches_def concat_chunks)


lemma top1_correct_zeros: "top1_correct zeros_network (x, c) \<longleftrightarrow> c = 0"
  by (auto simp: top1_correct_def zeros_network_scores argmax_list_replicate)

lemma log_softmax_zeros: "c < 10 \<Longrightarrow> log_softmax_at (replicate 10 0) c = - ln 10"
  by (simp add: log_softmax_at_def sum_list_replicate)

lemma batch_loss_zeros_two: "batch_loss zeros_network [(x, 0), (x', 1)] = ln 10"
  by (simp add: batch_loss_def zeros_network_scores CrossEntropyLoss_def log_softmax_zeros)

lemma batch_loss_zeros_one: "batch_loss zeros_network [(x, 2)] = ln 10"
  by (simp add: batch_loss_def zeros_network_scores CrossEntropyLoss_def log_softmax_zeros)

section \<open>Properties of run_pytorch\<close>

lemma epoch_mark_simps [simp]:
  "epoch_mark Module_train" "epoch_mark Module_eval" "epoch_mark (Save path)"
  "epoch_mark (Load path)" "epoch_mark (Print (Epoch t))"
  "\<not> epoch_mark (To_device device)" "\<not> epoch_mark Module_call" "\<not> epoch_mark Loss_call"
  "\<not> epoch_mark Zero_grad" "\<not> epoch_mark Backward" "\<not> epoch_mark Optimizer_step"
  "\<not> epoch_mark No_grad" "\<not> epoch_mark (Print (Progress l k n))"
  "\<not> epoch_mark (Print (Test_error a l))" "\<not> epoch_mark (Print (Predicted j y))"
  "\<not> epoch_mark (Print Done)" "\<not> epoch_mark (Print Saved_model)"
  by (simp_all add: epoch_mark_def)
















section \<open>Properties of the end of the validation epoch\<close>

lemma validation_step_determines_mode:
  "validation_step self batch batch_idx = Inr (self', out) \<Longrightarrow> mode_determined (metric self')"
  by (auto simp: validation_step_def Let_def did_def self_log_def Accuracy_update_def
      bind_err_def split: sum.splits if_splits)

text \<open>
  C7, as the code has it. On a module whose metric has been updated, as a validation
  step leaves it, the end-of-validation-epoch callback raises nothing: it computes the
  metric, logs the value as \<open>val_acc\<close> and then resets the metric, in this order, and
  changes nothing else. The value logged is the accumulated accuracy. After the reset
  nothing accumulated is left: computing the metric again gives the value of the
  empty state, zero, whatever the validation steps had accumulated.
\<close>

theorem validation_epoch_end_resets_metric:
  assumes "mode_determined (metric self)"
  shows "\<exists>v self'.
           Accuracy_compute (metric self) = Inr v \<and>
           v = (if acc_total (metric self) = 0 then 0
                else acc_correct (metric self) / real (acc_total (metric self))) \<and>
           validation_epoch_end self outputs = Inr self' \<and>
           self' = self\<lparr>logged := logged self @ [(''val_acc'', v)],
                        made := made self @ [Metric_compute, Log ''val_acc'' v, Metric_reset],
                        metric := (metric self)\<lparr>acc_correct := 0, acc_total := 0\<rparr>\<rparr> \<and>
           Accuracy_compute (metric self') = Inr 0"
  using assms
  by (simp add: validation_epoch_end_def did_def self_log_def Accuracy_reset_def
      Accuracy_compute_def Let_def)

text \<open>
  C7, as the specification has it, fails on a module whose metric has never been
  updated, as a newly constructed one: \<open>compute\<close> raises \<open>RuntimeError\<close>, and the
  callback with it, before anything is logged or reset.
\<close>

theorem validation_epoch_end_counterexample:
  "Accuracy_compute (metric zeros_module) = Inl RuntimeError \<and>
   validation_epoch_end zeros_module [] = Inl RuntimeError"
  by (simp add: validation_epoch_end_def Accuracy_compute_def zeros_module_def
      NeuralNetworkModule_init_def Accuracy_init_def)

lemma validation_step_zeros:
  "validation_step zeros_module (Tensor [zeros_image, zeros_image], [0, 1]) 0 =
     Inr (zeros_module
            \<lparr>logged := [(''val_loss'', ln 10)],
             made := [Module_call, Loss_call, Metric_update, Log ''val_loss'' (ln 10)],
             metric := \<lparr>num_classes = 10, mode_determined = True, acc_correct = 1,
                        acc_total = 2\<rparr>\<rparr>,
          [(''val_loss'', ln 10)])"
proof -
  have ok: "NeuralNetwork_ok (net zeros_module)"
    by (simp add: net_zeros_module zeros_network_ok)
  have im: "\<forall>img\<in>set [zeros_image, zeros_image]. image28 img"
    by (simp add: image28_zeros)
  have fw: "module_forward zeros_module (Tensor [zeros_image, zeros_image]) =
      Inr [replicate 10 0, replicate 10 0]"
    using forward_images [OF ok im]
    by (simp add: module_forward_def net_zeros_module zeros_network_scores)
  have loss: "CrossEntropyLoss [replicate 10 0, replicate 10 0] [0, 1] = Inr (ln 10)"
    by (simp add: CrossEntropyLoss_def log_softmax_zeros)
  have hits: "count_correct [replicate 10 0, replicate 10 0] [0, 1] = Inr 1"
    by (simp add: count_correct_def argmax_rows_def eq_broadcast_def argmax_list_replicate)
  have start: "logged zeros_module = []" "made zeros_module = []"
    "metric zeros_module = \<lparr>num_classes = 10, mode_determined = False, acc_correct = 0,
       acc_total = 0\<rparr>"
    by (simp_all add: zeros_module_def NeuralNetworkModule_init_def Accuracy_init_def)
  show ?thesis
    by (simp add: validation_step_def fw loss hits Accuracy_update_def did_def self_log_def
        start)
qed

theorem validation_epoch_end_resets_metric_witness:
  "(case validation_step zeros_module (Tensor [zeros_image, zeros_image], [0, 1]) 0 of
      Inl e \<Rightarrow> False
    | Inr r \<Rightarrow>
        mode_determined (metric (fst r)) \<and>
        (case validation_epoch_end (fst r) [snd r] of
           Inl e \<Rightarrow> False
         | Inr self' \<Rightarrow>
             logged self' = [(''val_loss'', ln 10), (''val_acc'', 1 / 2)] \<and>
             made self' = [Module_call, Loss_call, Metric_update, Log ''val_loss'' (ln 10),
                           Metric_compute, Log ''val_acc'' (1 / 2), Metric_reset] \<and>
             Accuracy_compute (metric self') = Inr 0))"
proof -
  let ?m = "zeros_module
      \<lparr>logged := [(''val_loss'', ln 10)],
       made := [Module_call, Loss_call, Metric_update, Log ''val_loss'' (ln 10)],
       metric := \<lparr>num_classes = 10, mode_determined = True, acc_correct = 1,
                  acc_total = 2\<rparr>\<rparr>"
  have det: "mode_determined (metric ?m)"
    by simp
  show ?thesis
    using validation_epoch_end_resets_metric [OF det, of "[[(''val_loss'', ln 10)]]"] det
    by (auto simp: validation_step_zeros)
qed

section \<open>The course of run_pytorch\<close>



section \<open>The arithmetic of the network\<close>

lemma dot_sum: "length w = length x \<Longrightarrow> dot w x = (\<Sum>j<length x. w ! j * x ! j)"
proof (induction w x rule: list_induct2)
  case Nil
  then show ?case by (simp add: dot_def)
next
  case (Cons a w b x)
  then show ?case
    by (simp add: dot_def sum.lessThan_Suc_shift del: sum.lessThan_Suc)
qed

lemma affine_nth:
  assumes "Linear_ok n_in n_out l" and "length x = n_in" and "i < n_out"
  shows "affine l x ! i = (\<Sum>j<n_in. weight l ! i ! j * x ! j) + bias l ! i"
proof -
  have lw: "length (weight l) = n_out" and lb: "length (bias l) = n_out"
    using assms(1) by (simp_all add: Linear_ok_def)
  have "weight l ! i \<in> set (weight l)"
    using assms(3) lw by simp
  then have "length (weight l ! i) = length x"
    using assms(1,2) by (simp add: Linear_ok_def list_all_iff)
  then have "dot (weight l ! i) x = (\<Sum>j<length x. weight l ! i ! j * x ! j)"
    by (rule dot_sum)
  then show ?thesis
    using assms(2,3) lw lb by (simp add: affine_def)
qed

lemma relu_nth: "i < length x \<Longrightarrow> relu x ! i = max 0 (x ! i)"
  by (simp add: relu_def)

lemma flat_row: "flat (Tensor (map Scalar row)) = row"
  by (induction row) simp_all

lemma flat_rows: "flat (Tensor (map (\<lambda>row. Tensor (map Scalar row)) R)) = concat R"
proof -
  have "map (\<lambda>row. flat (Tensor (map Scalar row))) R = R"
    by (simp only: flat_row map_ident)
  then have "map flat (map (\<lambda>row. Tensor (map Scalar row)) R) = R"
    by (simp only: map_map comp_def)
  then show ?thesis
    by (simp only: flat.simps)
qed

lemma flat_channel_rows:
  "flat (Tensor [Tensor (map (\<lambda>row. Tensor (map Scalar row)) R)]) = concat R"
  using flat_rows [of R] by (simp del: flat.simps add: flat.simps(2) [of "[t]" for t])

lemma three_linear_nth:
  assumes "NeuralNetwork_ok self" and "length (flat img) = 784" and "c < 10"
  shows "three_linear_two_activations self img ! c =
           (\<Sum>j<512. weight (stack_4 self) ! c ! j *
              max 0 ((\<Sum>i<512. weight (stack_2 self) ! j ! i *
                max 0 ((\<Sum>p<784. weight (stack_0 self) ! i ! p * flat img ! p) +
                       bias (stack_0 self) ! i)) +
                     bias (stack_2 self) ! j)) +
           bias (stack_4 self) ! c"
proof -
  let ?h0 = "affine (stack_0 self) (flat img)"
  let ?h2 = "affine (stack_2 self) (relu ?h0)"
  have l0: "Linear_ok 784 512 (stack_0 self)" and l2: "Linear_ok 512 512 (stack_2 self)"
    and l4: "Linear_ok 512 10 (stack_4 self)"
    using assms(1) by (simp_all add: NeuralNetwork_ok_def)
  have len0: "length (relu ?h0) = 512"
    by (simp add: length_affine_ok [OF l0])
  have len2: "length (relu ?h2) = 512"
    by (simp add: length_affine_ok [OF l2])
  have h0: "relu ?h0 ! i =
      max 0 ((\<Sum>p<784. weight (stack_0 self) ! i ! p * flat img ! p) + bias (stack_0 self) ! i)"
    if "i < 512" for i
    using that affine_nth [OF l0 assms(2) that] by (simp add: relu_nth length_affine_ok [OF l0])
  have h2: "relu ?h2 ! j =
      max 0 ((\<Sum>i<512. weight (stack_2 self) ! j ! i *
          max 0 ((\<Sum>p<784. weight (stack_0 self) ! i ! p * flat img ! p) +
                 bias (stack_0 self) ! i)) +
        bias (stack_2 self) ! j)"
    if "j < 512" for j
  proof -
    have "relu ?h2 ! j = max 0 (?h2 ! j)"
      using that by (simp add: relu_nth length_affine_ok [OF l2])
    also have "?h2 ! j = (\<Sum>i<512. weight (stack_2 self) ! j ! i * relu ?h0 ! i) +
        bias (stack_2 self) ! j"
      by (rule affine_nth [OF l2 len0 that])
    also have "(\<Sum>i<512. weight (stack_2 self) ! j ! i * relu ?h0 ! i) =
        (\<Sum>i<512. weight (stack_2 self) ! j ! i *
          max 0 ((\<Sum>p<784. weight (stack_0 self) ! i ! p * flat img ! p) +
                 bias (stack_0 self) ! i))"
      by (rule sum.cong) (simp_all add: h0)
    finally show ?thesis .
  qed
  have "three_linear_two_activations self img ! c =
      (\<Sum>j<512. weight (stack_4 self) ! c ! j * relu ?h2 ! j) + bias (stack_4 self) ! c"
    unfolding three_linear_two_activations_def by (rule affine_nth [OF l4 len2 assms(3)])
  also have "(\<Sum>j<512. weight (stack_4 self) ! c ! j * relu ?h2 ! j) =
      (\<Sum>j<512. weight (stack_4 self) ! c ! j *
        max 0 ((\<Sum>i<512. weight (stack_2 self) ! j ! i *
            max 0 ((\<Sum>p<784. weight (stack_0 self) ! i ! p * flat img ! p) +
                   bias (stack_0 self) ! i)) +
          bias (stack_2 self) ! j))"
    by (rule sum.cong) (simp_all add: h2)
  finally show ?thesis .
qed

text \<open>
  C2. For a network with the shapes the constructor gives and a batch of images that are
  each 28 x 28, \<open>forward\<close> raises nothing and returns one row of exactly 10 scores per
  image, as many rows as the batch has images. The score of class \<open>c\<close> for an image is
  the image flattened and sent through three linear transformations (weights times
  inputs, summed, plus bias) with the activation \<open>max 0\<close> after the first and after the
  second: it is returned as the last linear transformation gives it, not normalised.
  Flattening lists the pixels row after row.
\<close>

theorem forward_scores:
  assumes "NeuralNetwork_ok self" and "\<forall>img\<in>set X. image28 img"
  shows "(\<exists>logits. forward self (Tensor X) = Inr logits \<and> length logits = length X \<and>
           (\<forall>scores\<in>set logits. length scores = 10) \<and>
           logits = map (three_linear_two_activations self) X \<and>
           (\<forall>k<length X. \<forall>c<10. logits ! k ! c =
              (\<Sum>j<512. weight (stack_4 self) ! c ! j *
                 max 0 ((\<Sum>i<512. weight (stack_2 self) ! j ! i *
                   max 0 ((\<Sum>p<784. weight (stack_0 self) ! i ! p * flat (X ! k) ! p) +
                          bias (stack_0 self) ! i)) +
                        bias (stack_2 self) ! j)) +
              bias (stack_4 self) ! c)) \<and>
         flat (Tensor (map (\<lambda>row. Tensor (map Scalar row)) R)) = concat R \<and>
         flat (Tensor [Tensor (map (\<lambda>row. Tensor (map Scalar row)) R)]) = concat R"
proof -
  have run: "forward self (Tensor X) = Inr (map (three_linear_two_activations self) X)"
    by (rule forward_images [OF assms])
  have "map (three_linear_two_activations self) X ! k ! c =
      (\<Sum>j<512. weight (stack_4 self) ! c ! j *
         max 0 ((\<Sum>i<512. weight (stack_2 self) ! j ! i *
           max 0 ((\<Sum>p<784. weight (stack_0 self) ! i ! p * flat (X ! k) ! p) +
                  bias (stack_0 self) ! i)) +
                bias (stack_2 self) ! j)) +
      bias (stack_4 self) ! c"
    if "k < length X" and "c < 10" for k c
  proof -
    have "image28 (X ! k)"
      using assms(2) that(1) by simp
    then have "length (flat (X ! k)) = 784"
      by (rule image28_flat)
    from three_linear_nth [OF assms(1) this that(2)] that(1) show ?thesis
      by simp
  qed
  then show ?thesis
    using run length_three_linear [OF assms(1)] flat_rows [of R] flat_channel_rows [of R]
    by simp
qed

lemma nn_Linear_nth:
  "i < n_out \<Longrightarrow> j < n_in \<Longrightarrow> weight (nn_Linear w0 b0 n_in n_out) ! i ! j = w0 i j"
  "i < n_out \<Longrightarrow> bias (nn_Linear w0 b0 n_in n_out) ! i = b0 i"
  by (simp_all add: nn_Linear_def)

lemma concat_replicate_replicate: "concat (replicate n (replicate m a)) = replicate (n * m) a"
  by (induction n) (simp_all add: replicate_add)

lemma flat_ones_image: "flat ones_image = replicate 784 1"
proof -
  have e: "ones_image =
      Tensor [Tensor (map (\<lambda>row. Tensor (map Scalar row)) (replicate 28 (replicate 28 1)))]"
    by (simp add: ones_image_def)
  show ?thesis
    unfolding e flat_channel_rows by (simp add: concat_replicate_replicate)
qed

lemma image28_ones: "image28 ones_image"
  by (simp add: image28_def ones_image_def list_all_iff)

lemma demo_network_ok: "NeuralNetwork_ok demo_network"
  unfolding demo_network_def by (rule NeuralNetwork_init_ok)

theorem forward_scores_witness:
  "NeuralNetwork_ok demo_network \<and> list_all image28 [ones_image] \<and>
   forward demo_network (Tensor [ones_image]) = Inr [[0, 1, 2, 3, 4, 5, 6, 7, 8, 9]]"
proof -
  have im: "\<forall>img\<in>set [ones_image]. image28 img"
    by (simp add: image28_ones)
  obtain logits where run: "forward demo_network (Tensor [ones_image]) = Inr logits"
    and len: "length logits = length [ones_image]"
    and rows: "\<forall>scores\<in>set logits. length scores = 10"
    and scores: "\<forall>k<length [ones_image]. \<forall>c<10. logits ! k ! c =
      (\<Sum>j<512. weight (stack_4 demo_network) ! c ! j *
         max 0 ((\<Sum>i<512. weight (stack_2 demo_network) ! j ! i *
           max 0 ((\<Sum>p<784. weight (stack_0 demo_network) ! i ! p *
                    flat ([ones_image] ! k) ! p) +
                  bias (stack_0 demo_network) ! i)) +
                bias (stack_2 demo_network) ! j)) +
      bias (stack_4 demo_network) ! c"
    using forward_scores [OF demo_network_ok im] by blast
  have first: "(\<Sum>p<784. weight (stack_0 demo_network) ! i ! p * flat ones_image ! p) +
      bias (stack_0 demo_network) ! i = 784" if "i < 512" for i
  proof -
    have "(\<Sum>p<784. weight (stack_0 demo_network) ! i ! p * flat ones_image ! p) =
        (\<Sum>p<784::nat. 1::real)"
      by (rule sum.cong)
        (simp_all add: demo_network_def NeuralNetwork_init_def nn_Linear_nth that
          flat_ones_image)
    then show ?thesis
      using that by (simp add: demo_network_def NeuralNetwork_init_def nn_Linear_nth)
  qed
  have second: "(\<Sum>i<512. weight (stack_2 demo_network) ! j ! i *
      max 0 ((\<Sum>p<784. weight (stack_0 demo_network) ! i ! p * flat ones_image ! p) +
             bias (stack_0 demo_network) ! i)) +
      bias (stack_2 demo_network) ! j = - 401408" if "j < 512" for j
  proof -
    have "(\<Sum>i<512. weight (stack_2 demo_network) ! j ! i *
        max 0 ((\<Sum>p<784. weight (stack_0 demo_network) ! i ! p * flat ones_image ! p) +
               bias (stack_0 demo_network) ! i)) =
        (\<Sum>i<512. weight (stack_2 demo_network) ! j ! i * max 0 784)"
      by (rule sum.cong) (simp_all only: first lessThan_iff)
    also have "\<dots> = (\<Sum>i<512::nat. - 784::real)"
      by (rule sum.cong)
        (simp_all add: demo_network_def NeuralNetwork_init_def nn_Linear_nth that)
    finally show ?thesis
      using that by (simp add: demo_network_def NeuralNetwork_init_def nn_Linear_nth)
  qed
  have third: "logits ! 0 ! c = real c" if "c < 10" for c
  proof -
    have "(\<Sum>j<512. weight (stack_4 demo_network) ! c ! j *
        max 0 ((\<Sum>i<512. weight (stack_2 demo_network) ! j ! i *
          max 0 ((\<Sum>p<784. weight (stack_0 demo_network) ! i ! p * flat ones_image ! p) +
                 bias (stack_0 demo_network) ! i)) +
               bias (stack_2 demo_network) ! j)) =
        (\<Sum>j<512. weight (stack_4 demo_network) ! c ! j * max 0 (- 401408))"
      by (rule sum.cong) (simp_all only: second lessThan_iff)
    also have "\<dots> = (\<Sum>j<512::nat. 0::real)"
      by simp
    finally have "(\<Sum>j<512. weight (stack_4 demo_network) ! c ! j *
        max 0 ((\<Sum>i<512. weight (stack_2 demo_network) ! j ! i *
          max 0 ((\<Sum>p<784. weight (stack_0 demo_network) ! i ! p * flat ones_image ! p) +
                 bias (stack_0 demo_network) ! i)) +
               bias (stack_2 demo_network) ! j)) = 0"
      by simp
    moreover have "logits ! 0 ! c =
        (\<Sum>j<512. weight (stack_4 demo_network) ! c ! j *
          max 0 ((\<Sum>i<512. weight (stack_2 demo_network) ! j ! i *
            max 0 ((\<Sum>p<784. weight (stack_0 demo_network) ! i ! p * flat ones_image ! p) +
                   bias (stack_0 demo_network) ! i)) +
                 bias (stack_2 demo_network) ! j)) +
        bias (stack_4 demo_network) ! c"
      using scores that by force
    moreover have "bias (stack_4 demo_network) ! c = real c"
      using that by (simp add: demo_network_def NeuralNetwork_init_def nn_Linear_nth)
    ultimately show ?thesis
      by simp
  qed
  have "logits ! 0 = map real [0..<10]"
    using rows len third by (intro nth_equalityI) simp_all
  moreover have "logits = [logits ! 0]"
    using len by (cases logits) simp_all
  ultimately have "logits = [[0, 1, 2, 3, 4, 5, 6, 7, 8, 9]]"
    by (simp add: upt_rec)
  then show ?thesis
    using run demo_network_ok image28_ones by simp
qed

end
